theory Spec2Isabelle
  imports Complex_Main "HOL-Library.AList"
begin

section \<open>Numbers of the source\<close>

text \<open>
  The source is JavaScript: its numbers are IEEE doubles. A finite double is modelled by
  the real number it denotes, and an arithmetic operation of the source by the exact
  operation followed by \<open>double\<close>, the rounding of a real to the nearest double (53
  significant bits, halves to the even neighbour). The exponent range of the doubles is
  not modelled: no quantity of this program comes near \<open>2 ^ 1024\<close> or \<open>2 ^ - 1022\<close>.
  Comparisons, \<open>Math.max\<close>, \<open>Math.min\<close>, \<open>Math.floor\<close> and \<open>Math.round\<close> are exact on
  doubles and need no rounding.

  What is not a finite number is a result of its own: a function that meets a division
  by zero, whose values are infinite or \<open>NaN\<close> from there on, answers \<open>NotANumber\<close>, and
  one that JavaScript leaves with a \<open>TypeError\<close> answers that.
\<close>

datatype js_fault = TypeError | NotANumber

definition Math_round :: "real \<Rightarrow> real" where
  \<comment> \<open>\<open>Math.round\<close>: the nearest integer, halves rounded up.\<close>
  "Math_round x = of_int \<lfloor>x + 1 / 2\<rfloor>"

definition round_half_even :: "real \<Rightarrow> int" where
  "round_half_even q =
     (let f = \<lfloor>q\<rfloor>; d = q - of_int f
      in if d < 1 / 2 then f else if 1 / 2 < d then f + 1 else if even f then f else f + 1)"

definition double :: "real \<Rightarrow> real" where
  "double x =
     (if x = 0 then 0
      else
        let e = \<lfloor>log 2 \<bar>x\<bar>\<rfloor> - 52
        in of_int (round_half_even (x / 2 powr of_int e)) * 2 powr of_int e)"

lemma round_half_even_error: "\<bar>of_int (round_half_even q) - q\<bar> \<le> 1 / 2"
  unfolding round_half_even_def Let_def by (auto simp: abs_if) linarith+

lemma round_half_even_of_int: "round_half_even (of_int n) = n"
  by (simp add: round_half_even_def)

text \<open>
  How \<open>double\<close> is computed on a given number: \<open>k\<close> is the exponent of the power of two
  at or below it.
\<close>

lemma double_eval:
  assumes "x \<noteq> 0" "2 powr of_int k \<le> \<bar>x\<bar>" "\<bar>x\<bar> < 2 powr of_int (k + 1)"
  shows "double x = of_int (round_half_even (x / 2 powr of_int (k - 52))) * 2 powr of_int (k - 52)"
proof -
  have "\<lfloor>log 2 \<bar>x\<bar>\<rfloor> = k"
  proof (rule floor_unique)
    show "of_int k \<le> log 2 \<bar>x\<bar>"
      using assms(1,2) by (simp add: le_log_iff)
    show "log 2 \<bar>x\<bar> < of_int k + 1"
      using assms(1,3) by (simp add: log_less_iff add.commute)
  qed
  with assms(1) show ?thesis by (simp add: double_def)
qed

text \<open>The relative error of one rounding is at most \<open>2 ^ - 53\<close>.\<close>

lemma double_error: "\<bar>double x - x\<bar> \<le> \<bar>x\<bar> / 2 ^ 53"
proof (cases "x = 0")
  case True
  then show ?thesis by (simp add: double_def)
next
  case False
  define e where "e = \<lfloor>log 2 \<bar>x\<bar>\<rfloor> - 52"
  define p :: real where "p = 2 powr of_int e"
  have p: "0 < p" by (simp add: p_def)
  have d: "double x = of_int (round_half_even (x / p)) * p"
    using False by (simp add: double_def e_def p_def)
  have "\<bar>double x - x\<bar> = \<bar>of_int (round_half_even (x / p)) - x / p\<bar> * p"
  proof -
    have "double x - x = (of_int (round_half_even (x / p)) - x / p) * p"
      using p by (simp add: d field_simps)
    then show ?thesis using p by (simp add: abs_mult)
  qed
  also have "\<dots> \<le> (1 / 2) * p"
    using round_half_even_error [of "x / p"] p by (intro mult_right_mono) auto
  also have "\<dots> = 2 powr (of_int \<lfloor>log 2 \<bar>x\<bar>\<rfloor> - 53)"
    by (simp add: p_def e_def powr_diff)
  also have "\<dots> \<le> 2 powr (log 2 \<bar>x\<bar> - 53)"
    by (intro powr_mono) auto
  also have "\<dots> = \<bar>x\<bar> / 2 ^ 53"
    using False by (simp add: powr_diff)
  finally show ?thesis .
qed

lemma double_eq_0_iff: "double x = 0 \<longleftrightarrow> x = 0"
proof
  assume z: "double x = 0"
  show "x = 0"
  proof (rule ccontr)
    assume "x \<noteq> 0"
    then have "\<bar>x\<bar> / 2 ^ 53 < \<bar>x\<bar>" by (simp add: field_simps)
    with double_error [of x] z show False by simp
  qed
qed (simp add: double_def)


text \<open>Whole numbers up to \<open>2 ^ 53\<close> are doubles: rounding leaves them as they are.\<close>

lemma double_of_int:
  assumes "\<bar>n\<bar> \<le> 2 ^ 53"
  shows "double (of_int n) = of_int n"
proof (cases "n = 0")
  case True
  then show ?thesis by (simp add: double_def)
next
  case False
  define k where "k = \<lfloor>log 2 \<bar>real_of_int n\<bar>\<rfloor>"
  have "1 \<le> \<bar>n\<bar>" using False by linarith
  then have "real_of_int 1 \<le> real_of_int \<bar>n\<bar>" by (simp only: of_int_le_iff)
  then have n1: "1 \<le> \<bar>real_of_int n\<bar>" by simp
  have "real_of_int \<bar>n\<bar> \<le> real_of_int (2 ^ 53)" using assms by (simp only: of_int_le_iff)
  then have le: "\<bar>real_of_int n\<bar> \<le> 2 ^ 53" by simp
  have "log 2 \<bar>real_of_int n\<bar> \<le> 53"
    using n1 le by (simp add: log_le_iff)
  then have k53: "k \<le> 53" unfolding k_def by (simp add: floor_le_iff)
  have d: "double (of_int n) =
      of_int (round_half_even (of_int n / 2 powr of_int (k - 52))) * 2 powr of_int (k - 52)"
    using False by (simp add: double_def k_def)
  show ?thesis
  proof (cases "k \<le> 52")
    case True
    define j where "j = nat (52 - k)"
    have j: "real_of_int (k - 52) = - real j" using True by (simp add: j_def)
    have "(2::real) powr real_of_int (k - 52) = 2 powr (- real j)" by (simp only: j)
    also have "\<dots> = 1 / 2 ^ j" by (simp add: powr_minus powr_realpow divide_inverse)
    finally have pw: "(2::real) powr real_of_int (k - 52) = 1 / 2 ^ j" .
    have q: "real_of_int n / 2 powr real_of_int (k - 52) = real_of_int (n * 2 ^ j)"
      by (simp only: pw) simp
    show ?thesis
      unfolding d q round_half_even_of_int by (simp only: pw) simp
  next
    case False
    with k53 have k: "k = 53" by simp
    then have "53 \<le> log 2 \<bar>real_of_int n\<bar>" unfolding k_def by linarith
    then have "2 powr 53 \<le> \<bar>real_of_int n\<bar>"
      using n1 by (simp add: le_log_iff)
    then have "2 ^ 53 \<le> \<bar>real_of_int n\<bar>" by (simp add: powr_realpow [symmetric])
    then have "2 ^ 53 \<le> \<bar>n\<bar>" by (simp add: of_int_abs [symmetric] del: of_int_abs)
    with assms have a: "\<bar>n\<bar> = 2 ^ 53" by simp
    then have "n = 2 ^ 53 \<or> n = - (2 ^ 53)" by (simp add: abs_if split: if_splits)
    then show ?thesis
    proof
      assume "n = 2 ^ 53"
      then have q: "real_of_int n / 2 powr real_of_int (k - 52) = real_of_int (2 ^ 52)"
        by (simp add: k)
      show ?thesis unfolding d q round_half_even_of_int by (simp add: k \<open>n = 2 ^ 53\<close>)
    next
      assume "n = - (2 ^ 53)"
      then have q: "real_of_int n / 2 powr real_of_int (k - 52) = real_of_int (- (2 ^ 52))"
        by (simp add: k)
      show ?thesis unfolding d q round_half_even_of_int by (simp add: k \<open>n = - (2 ^ 53)\<close>)
    qed
  qed
qed

lemma double_whole:
  assumes "x \<in> \<int>" "\<bar>x\<bar> \<le> 2 ^ 53"
  shows "double x = x"
proof -
  from assms(1) obtain n where x: "x = of_int n" by (auto elim: Ints_cases)
  with assms(2) have "real_of_int \<bar>n\<bar> \<le> real_of_int (2 ^ 53)" by simp
  then have "\<bar>n\<bar> \<le> 2 ^ 53" by (simp only: of_int_le_iff)
  from double_of_int [OF this] x show ?thesis by simp
qed

section \<open>ResizeHandler (scripts/interactions/ResizeHandler.js)\<close>

record resize_config =
  minSize :: real
  maxSize :: real
  preserveAspectRatio :: bool
  snapToGrid :: bool
  gridSize :: real

definition default_resize_config :: resize_config where
  "default_resize_config =
     \<lparr>minSize = 50, maxSize = 2000, preserveAspectRatio = True, snapToGrid = False,
      gridSize = 10\<rparr>"

text \<open>
  The resize container element as the handler sees it: the index attribute, the \<open>width\<close> and
  \<open>height\<close> of its image (unsigned integers in the DOM), and the style size that
  \<open>applyNewSize\<close> writes.
\<close>

record resize_container =
  resize_index :: nat
  img_width :: nat
  img_height :: nat
  style_width :: real
  style_height :: real

record resize_handler =
  config :: resize_config
  isResizing :: bool
  currentContainer :: "resize_container option"
  startPosition :: "real \<times> real"
  initialSize :: "real \<times> real"
  aspectRatio :: real

definition idle_resize_handler :: resize_handler where
  \<comment> \<open>The handler as its constructor leaves it.\<close>
  "idle_resize_handler =
     \<lparr>config = default_resize_config, isResizing = False, currentContainer = None,
      startPosition = (0, 0), initialSize = (0, 0), aspectRatio = 1\<rparr>"

datatype resize_event =
  ResizeStart nat "real \<times> real" real
  | ResizeMove nat "real \<times> real"
  | ResizeEnd nat "real \<times> real" "real \<times> real"

text \<open>
  \<open>startResize\<close>: returns the handler unchanged (and no event) when a resize is already
  running. The aspect ratio is the double \<open>width / height\<close>; for an image of height 0
  JavaScript yields a ratio that is infinite or \<open>NaN\<close>, which is outside this model: the
  result is \<open>None\<close> there.
\<close>

definition startResize ::
  "resize_handler \<Rightarrow> resize_container \<Rightarrow> real \<Rightarrow> real
     \<Rightarrow> (resize_handler \<times> resize_event list) option" where
  "startResize h c clientX clientY =
     (if isResizing h then Some (h, [])
      else if img_height c = 0 then None
      else
        let isz = (real (img_width c), real (img_height c));
            ar = double (fst isz / snd isz)
        in Some (h\<lparr>isResizing := True, currentContainer := Some c, initialSize := isz,
                    startPosition := (clientX, clientY), aspectRatio := ar\<rparr>,
                 [ResizeStart (resize_index c) isz ar]))"

text \<open>
  \<open>applySizeConstraints\<close>, with the quotient and the products of its aspect-ratio branch
  taken exactly. The statements about the bounds are made on this form; the samples of a
  gesture, further down, are computed with every quotient and product rounded.
\<close>

definition applySizeConstraints :: "resize_handler \<Rightarrow> real \<Rightarrow> real \<Rightarrow> real \<times> real" where
  "applySizeConstraints h width height =
     (let width = max (minSize (config h)) width;
          height = max (minSize (config h)) height;
          width = min (maxSize (config h)) width;
          height = min (maxSize (config h)) height
      in if preserveAspectRatio (config h) then
           (let height = width / aspectRatio h
            in if height > maxSize (config h)
               then (maxSize (config h) * aspectRatio h, maxSize (config h))
               else if height < minSize (config h)
               then (minSize (config h) * aspectRatio h, minSize (config h))
               else (width, height))
         else (width, height))"

definition size_within :: "resize_handler \<Rightarrow> real \<times> real \<Rightarrow> bool" where
  "size_within h sz =
     (minSize (config h) \<le> fst sz \<and> fst sz \<le> maxSize (config h) \<and>
      minSize (config h) \<le> snd sz \<and> snd sz \<le> maxSize (config h))"


subsection \<open>Size constraints\<close>

lemma applySizeConstraints_ratio:
  assumes "preserveAspectRatio (config h)" "0 < minSize (config h)" "0 < maxSize (config h)"
    "0 < aspectRatio h"
  shows "0 < fst (applySizeConstraints h w ht) \<and> 0 < snd (applySizeConstraints h w ht) \<and>
         fst (applySizeConstraints h w ht) / snd (applySizeConstraints h w ht) = aspectRatio h"
proof -
  let ?w = "min (maxSize (config h)) (max (minSize (config h)) w)"
  have "0 < ?w" using assms by auto
  then show ?thesis using assms
    by (auto simp: applySizeConstraints_def Let_def)
qed

text \<open>
  Claim C3, as stated, fails. A tile of 1 by 64 pixels has aspect ratio 1/64. The proposed
  width 50 gives the height 3200, above \<open>maxSize\<close>; the height becomes 2000 and the
  width is recomputed as 2000 / 64 = 31.25, below \<open>minSize\<close> = 50, and is returned so.
\<close>

definition narrow_tile :: resize_container where
  "narrow_tile =
     \<lparr>resize_index = 0, img_width = 1, img_height = 64, style_width = 1, style_height = 64\<rparr>"

definition narrow_resizing :: resize_handler where
  "narrow_resizing =
     idle_resize_handler\<lparr>isResizing := True, currentContainer := Some narrow_tile,
       initialSize := (1, 64), startPosition := (0, 0), aspectRatio := 1 / 64\<rparr>"

lemma double_narrow: "double (1 / 64) = 1 / 64"
  using double_eval [of "1 / 64" "- 6"] by (simp add: round_half_even_def powr_minus)

theorem applySizeConstraints_extreme_ratio_counterexample:
  "startResize idle_resize_handler narrow_tile 0 0
     = Some (narrow_resizing, [ResizeStart 0 (1, 64) (1 / 64)]) \<and>
   applySizeConstraints narrow_resizing 50 3200 = (125 / 4, 2000) \<and>
   \<not> size_within narrow_resizing (applySizeConstraints narrow_resizing 50 3200)"
  by (simp add: startResize_def narrow_resizing_def narrow_tile_def idle_resize_handler_def
      default_resize_config_def applySizeConstraints_def size_within_def double_narrow Let_def)

text \<open>
  Claim C3, amended: for every proposed width and height and every aspect ratio above 0,
  with \<open>0 < minSize \<le> maxSize\<close>, the height returned by \<open>applySizeConstraints\<close> lies in
  \<open>[minSize, maxSize]\<close>; the width lies there too when aspect-ratio preservation is off,
  or when \<open>minSize \<le> maxSize * ratio\<close> and \<open>minSize * ratio \<le> maxSize\<close> (ratios between
  1/40 and 40 for the default bounds 50 and 2000).
\<close>

theorem applySizeConstraints_bounds:
  assumes "0 < minSize (config h)" "minSize (config h) \<le> maxSize (config h)"
    "0 < aspectRatio h"
  shows "minSize (config h) \<le> snd (applySizeConstraints h w ht) \<and>
         snd (applySizeConstraints h w ht) \<le> maxSize (config h) \<and>
         ((preserveAspectRatio (config h) \<longrightarrow>
            minSize (config h) \<le> maxSize (config h) * aspectRatio h \<and>
            minSize (config h) * aspectRatio h \<le> maxSize (config h)) \<longrightarrow>
          size_within h (applySizeConstraints h w ht))"
proof -
  let ?lo = "minSize (config h)" and ?hi = "maxSize (config h)" and ?r = "aspectRatio h"
  let ?w = "min ?hi (max ?lo w)"
  have w: "?lo \<le> ?w" "?w \<le> ?hi" using assms by auto
  show ?thesis
  proof (cases "preserveAspectRatio (config h)")
    case False
    then show ?thesis using assms
      by (auto simp: applySizeConstraints_def size_within_def Let_def)
  next
    case True
    consider (hi) "?w / ?r > ?hi" | (lo) "\<not> ?w / ?r > ?hi" "?w / ?r < ?lo"
      | (mid) "\<not> ?w / ?r > ?hi" "\<not> ?w / ?r < ?lo" by blast
    then show ?thesis
    proof cases
      case hi
      then have "?hi * ?r < ?w" using assms(3) by (simp add: pos_less_divide_eq)
      then have "?hi * ?r \<le> ?hi" using w by linarith
      with hi True assms show ?thesis
        by (simp add: applySizeConstraints_def size_within_def Let_def)
    next
      case lo
      then have "?w < ?lo * ?r" using assms(3) by (simp add: pos_divide_less_eq)
      then have "?lo \<le> ?lo * ?r" using w by linarith
      with lo True assms show ?thesis
        by (simp add: applySizeConstraints_def size_within_def Let_def)
    next
      case mid
      with True assms w show ?thesis
        by (simp add: applySizeConstraints_def size_within_def Let_def)
    qed
  qed
qed

definition wide_tile :: resize_container where
  "wide_tile =
     \<lparr>resize_index = 3, img_width = 400, img_height = 200, style_width = 400,
      style_height = 200\<rparr>"

definition wide_resizing :: resize_handler where
  "wide_resizing =
     idle_resize_handler\<lparr>isResizing := True, currentContainer := Some wide_tile,
       initialSize := (400, 200), startPosition := (0, 0), aspectRatio := 2\<rparr>"

theorem applySizeConstraints_bounds_witness:
  "0 < minSize (config wide_resizing) \<and>
   minSize (config wide_resizing) \<le> maxSize (config wide_resizing) \<and>
   0 < aspectRatio wide_resizing \<and>
   minSize (config wide_resizing) \<le> maxSize (config wide_resizing) * aspectRatio wide_resizing \<and>
   minSize (config wide_resizing) * aspectRatio wide_resizing \<le> maxSize (config wide_resizing) \<and>
   applySizeConstraints wide_resizing 60 30 = (100, 50) \<and>
   size_within wide_resizing (applySizeConstraints wide_resizing 60 30)"
  using applySizeConstraints_bounds [of wide_resizing 60 30]
  by (simp add: wide_resizing_def idle_resize_handler_def default_resize_config_def
      applySizeConstraints_def Let_def)

subsection \<open>The samples of a gesture\<close>

text \<open>
  \<open>applyNewSize\<close> writes the size to the style of the container and of the image, and to
  the \<open>width\<close> and \<open>height\<close> of the image. Those two are unsigned integers in the DOM:
  the fraction is dropped, and a number outside \<open>0 .. 2 ^ 31 - 1\<close> becomes 0. They are what
  \<open>endResize\<close> and the next \<open>startResize\<close> read; a browser that reports the rendered width
  there instead of the attribute may round differently.
\<close>

definition dom_unsigned_long :: "real \<Rightarrow> nat" where
  "dom_unsigned_long x =
     (let n = (if 0 \<le> x then \<lfloor>x\<rfloor> else \<lceil>x\<rceil>) mod 2 ^ 32
      in if n < 2 ^ 31 then nat n else 0)"

definition applyNewSize :: "resize_container \<Rightarrow> real \<Rightarrow> real \<Rightarrow> resize_container" where
  "applyNewSize c width height =
     c\<lparr>style_width := width, style_height := height,
       img_width := dom_unsigned_long width, img_height := dom_unsigned_long height\<rparr>"

text \<open>
  \<open>applySizeConstraints\<close> as the handler computes it: the quotient and the products are
  rounded to doubles.
\<close>

definition applySizeConstraints_double ::
  "resize_handler \<Rightarrow> real \<Rightarrow> real \<Rightarrow> real \<times> real" where
  "applySizeConstraints_double h width height =
     (let width = max (minSize (config h)) width;
          height = max (minSize (config h)) height;
          width = min (maxSize (config h)) width;
          height = min (maxSize (config h)) height
      in if preserveAspectRatio (config h) then
           (let height = double (width / aspectRatio h)
            in if height > maxSize (config h)
               then (double (maxSize (config h) * aspectRatio h), maxSize (config h))
               else if height < minSize (config h)
               then (double (minSize (config h) * aspectRatio h), minSize (config h))
               else (width, height))
         else (width, height))"

text \<open>
  \<open>updateResizeSize\<close>: the size proposed for a pointer at \<open>(clientX, clientY)\<close>, then
  constrained, then snapped when \<open>snapToGrid\<close> is set; the size is applied to the
  container and emitted as \<open>resize:move\<close>. Without a current container nothing happens.

  The code divides by the aspect ratio when it preserves it, and by the grid size when
  it snaps. For an aspect ratio 0 the quotient is infinite or \<open>NaN\<close>; for a grid size 0
  the snapped width \<open>Math.round (w / 0) * 0\<close> is \<open>NaN\<close>, and the sample emitted is
  \<open>(NaN, NaN)\<close>. In both cases the model answers \<open>NotANumber\<close>.
\<close>

definition resize_size :: "resize_handler \<Rightarrow> real \<Rightarrow> real \<Rightarrow> js_fault + real \<times> real" where
  "resize_size h clientX clientY =
     (if preserveAspectRatio (config h) \<and> aspectRatio h = 0 then Inl NotANumber
      else
        let deltaX = double (clientX - fst (startPosition h));
            deltaY = double (clientY - snd (startPosition h));
            newWidth = double (fst (initialSize h) + deltaX);
            newHeight = (if preserveAspectRatio (config h) then double (newWidth / aspectRatio h)
                         else double (snd (initialSize h) + deltaY));
            constrainedSize = applySizeConstraints_double h newWidth newHeight;
            newWidth = fst constrainedSize;
            newHeight = snd constrainedSize
        in if snapToGrid (config h) then
             (if gridSize (config h) = 0 then Inl NotANumber
              else
                let newWidth =
                      double (Math_round (double (newWidth / gridSize (config h))) * gridSize (config h))
                in if preserveAspectRatio (config h)
                   then Inr (newWidth, double (newWidth / aspectRatio h))
                   else Inr (newWidth,
                             double (Math_round (double (newHeight / gridSize (config h)))
                                       * gridSize (config h))))
           else Inr (newWidth, newHeight))"

definition updateResizeSize ::
  "resize_handler \<Rightarrow> real \<Rightarrow> real \<Rightarrow> js_fault + resize_handler \<times> resize_event list" where
  "updateResizeSize h clientX clientY =
     (case currentContainer h of
        None \<Rightarrow> Inr (h, [])
      | Some c \<Rightarrow>
          (case resize_size h clientX clientY of
             Inl e \<Rightarrow> Inl e
           | Inr sz \<Rightarrow>
               Inr (h\<lparr>currentContainer := Some (applyNewSize c (fst sz) (snd sz))\<rparr>,
                    [ResizeMove (resize_index c) sz])))"

text \<open>
  \<open>endResize\<close> reads the final size back from the image and emits \<open>resize:end\<close>; it
  returns the container as the gesture leaves it.
\<close>

definition endResize ::
  "resize_handler \<Rightarrow> resize_handler \<times> resize_container option \<times> resize_event list" where
  "endResize h =
     (case currentContainer h of
        None \<Rightarrow> (h, None, [])
      | Some c \<Rightarrow>
          if \<not> isResizing h then (h, None, [])
          else (h\<lparr>isResizing := False, currentContainer := None\<rparr>, Some c,
                [ResizeEnd (resize_index c) (real (img_width c), real (img_height c))
                   (initialSize h)]))"

text \<open>
  A resize gesture after its start: \<open>handleMouseMove\<close> for each pointer sample in order,
  and the events in order. A sample that arrives while no resize is running is ignored.
\<close>

fun resize_moves ::
  "resize_handler \<Rightarrow> (real \<times> real) list \<Rightarrow> js_fault + resize_handler \<times> resize_event list" where
  "resize_moves h [] = Inr (h, [])"
| "resize_moves h (p # ps) =
     (case (if \<not> isResizing h then Inr (h, []) else updateResizeSize h (fst p) (snd p)) of
        Inl e \<Rightarrow> Inl e
      | Inr (h1, es1) \<Rightarrow>
          (case resize_moves h1 ps of
             Inl e \<Rightarrow> Inl e
           | Inr (h2, es2) \<Rightarrow> Inr (h2, es1 @ es2)))"



subsection \<open>Aspect ratio of the emitted samples\<close>















lemma whole_doubles: "double 1 = 1" "double 16 = 16" "double 66 = 66"
  using double_whole [of 1] double_whole [of 16] double_whole [of 66] by simp_all




text \<open>
  A gesture on an image of 50 by 51 pixels, with the default configuration: the pointer
  moves 16 pixels to the right. The width is 66 and the height is the double next above
  67.32; the quotient misses the ratio 50 / 51 by about \<open>10 ^ - 16\<close>, within the bound.
\<close>

definition plain_tile :: resize_container where
  "plain_tile =
     \<lparr>resize_index = 2, img_width = 50, img_height = 51, style_width = 50,
      style_height = 51\<rparr>"

definition plain_resizing :: resize_handler where
  "plain_resizing =
     idle_resize_handler\<lparr>isResizing := True, currentContainer := Some plain_tile,
       initialSize := (50, 51), startPosition := (100, 100), aspectRatio := double (50 / 51)\<rparr>"

lemma plain_doubles:
  "double (50 / 51) = 8830587504648031 / 9007199254740992"
  "double (594475150812905472 / 8830587504648031) = 4737223858040341 / 70368744177664"
proof -
  show "double (50 / 51) = 8830587504648031 / 9007199254740992"
    using double_eval [of "50 / 51" "- 1"] by (simp add: round_half_even_def powr_minus)
  show "double (594475150812905472 / 8830587504648031) = 4737223858040341 / 70368744177664"
    using double_eval [of "594475150812905472 / 8830587504648031" 6]
    by (simp add: round_half_even_def powr_minus)
qed

lemma plain_gesture:
  "startResize idle_resize_handler plain_tile 100 100
     = Some (plain_resizing, [ResizeStart 2 (50, 51) (double (50 / 51))])"
  "resize_moves plain_resizing [(116, 100)] =
     Inr (plain_resizing\<lparr>currentContainer :=
            Some (plain_tile\<lparr>style_width := 66,
                    style_height := 4737223858040341 / 70368744177664,
                    img_width := 66, img_height := 67\<rparr>)\<rparr>,
          [ResizeMove 2 (66, 4737223858040341 / 70368744177664)])"
proof -
  show "startResize idle_resize_handler plain_tile 100 100
     = Some (plain_resizing, [ResizeStart 2 (50, 51) (double (50 / 51))])"
    by (simp add: startResize_def plain_resizing_def plain_tile_def idle_resize_handler_def
        Let_def)
  have size: "resize_size plain_resizing 116 100 = Inr (66, 4737223858040341 / 70368744177664)"
    by (simp add: plain_resizing_def idle_resize_handler_def default_resize_config_def
        resize_size_def applySizeConstraints_double_def plain_doubles whole_doubles Let_def)
  show "resize_moves plain_resizing [(116, 100)] =
     Inr (plain_resizing\<lparr>currentContainer :=
            Some (plain_tile\<lparr>style_width := 66,
                    style_height := 4737223858040341 / 70368744177664,
                    img_width := 66, img_height := 67\<rparr>)\<rparr>,
          [ResizeMove 2 (66, 4737223858040341 / 70368744177664)])"
  proof -
    have st: "isResizing plain_resizing" "currentContainer plain_resizing = Some plain_tile"
      by (simp_all add: plain_resizing_def)
    have ap: "applyNewSize plain_tile 66 (4737223858040341 / 70368744177664) =
        plain_tile\<lparr>style_width := 66, style_height := 4737223858040341 / 70368744177664,
          img_width := 66, img_height := 67\<rparr>"
      by (simp add: applyNewSize_def dom_unsigned_long_def)
    show ?thesis
      by (simp add: updateResizeSize_def size st ap) (simp add: plain_tile_def)
  qed
qed


text \<open>
  The ratio kept is that of the image as the gesture finds it. The gesture above leaves
  the image at 66 by 67, so the next one keeps 66 / 67.
\<close>

lemma next_gesture_ratio:
  "\<exists>h c es. resize_moves plain_resizing [(116, 100)] = Inr (h, es) \<and>
     currentContainer h = Some c \<and>
     endResize h = (h\<lparr>isResizing := False, currentContainer := None\<rparr>, Some c,
                    [ResizeEnd 2 (66, 67) (50, 51)]) \<and>
     startResize (h\<lparr>isResizing := False, currentContainer := None\<rparr>) c 0 0 =
       Some (h\<lparr>isResizing := True, currentContainer := Some c, initialSize := (66, 67),
                startPosition := (0, 0), aspectRatio := double (66 / 67)\<rparr>,
             [ResizeStart 2 (66, 67) (double (66 / 67))])"
  unfolding plain_gesture(2)
  by (simp add: endResize_def startResize_def plain_resizing_def plain_tile_def
      idle_resize_handler_def Let_def)

section \<open>EventBus (scripts/core/EventBus.js)\<close>

text \<open>
  A listener is a pair of a callback and a context. A callback is a JavaScript function
  value: it is named here by a number, and what it does when called is given by a table
  \<open>run\<close>, a parameter of \<open>emit\<close>. A call may change anything, the listener lists of the
  bus included (a handler may subscribe or unsubscribe), so the bus lives in the world
  that handlers transform. A call either returns or throws.
\<close>

datatype 'e outcome = Returned | Threw 'e

record listener =
  callback :: nat
  this_context :: "nat option"

record 'a bus_world =
  events :: "string \<rightharpoonup> listener list"
  app :: 'a

type_synonym ('a, 'd, 'e) behaviour =
  "nat \<Rightarrow> nat option \<Rightarrow> 'd \<Rightarrow> 'a bus_world \<Rightarrow> 'a bus_world \<times> 'e outcome"

definition on :: "string \<Rightarrow> nat \<Rightarrow> nat option \<Rightarrow> 'a bus_world \<Rightarrow> 'a bus_world" where
  "on event cb ctx w =
     (let w1 = (if events w event = None then w\<lparr>events := (events w)(event \<mapsto> [])\<rparr> else w);
          ls = (case events w1 event of None \<Rightarrow> [] | Some ls \<Rightarrow> ls)
      in w1\<lparr>events := (events w1)(event \<mapsto> ls @ [\<lparr>callback = cb, this_context = ctx\<rparr>])\<rparr>)"

fun findIndex :: "('b \<Rightarrow> bool) \<Rightarrow> 'b list \<Rightarrow> nat option" where
  "findIndex P [] = None"
| "findIndex P (x # xs) = (if P x then Some 0 else map_option Suc (findIndex P xs))"

definition off ::
  "string \<Rightarrow> nat \<Rightarrow> nat option \<Rightarrow> 'a bus_world \<Rightarrow> 'a bus_world \<times> bool" where
  "off event cb ctx w =
     (case events w event of
        None \<Rightarrow> (w, False)
      | Some listeners \<Rightarrow>
          (case findIndex (\<lambda>l. callback l = cb \<and> this_context l = ctx) listeners of
             Some index \<Rightarrow>
               let listeners = take index listeners @ drop (Suc index) listeners
               in (w\<lparr>events := (if listeners = [] then (events w)(event := None)
                                 else (events w)(event \<mapsto> listeners))\<rparr>, True)
           | None \<Rightarrow> (w, False)))"

text \<open>
  The body of \<open>emit\<close>: \<open>listenersCopy.forEach\<close> with its \<open>try\<close> and \<open>catch\<close>. Each call
  runs in the world its predecessors left; whatever it does, the loop goes on with the
  rest of the copy. The calls made are returned with their outcomes; the thrown ones are
  what \<open>console.error\<close> receives.
\<close>

fun forEach_listener ::
  "('a, 'd, 'e) behaviour \<Rightarrow> 'd \<Rightarrow> listener list \<Rightarrow> 'a bus_world
     \<Rightarrow> 'a bus_world \<times> (listener \<times> 'e outcome) list" where
  "forEach_listener run data [] w = (w, [])"
| "forEach_listener run data (l # ls) w =
     (let (w1, res) = run (callback l) (this_context l) data w;
          (w2, calls) = forEach_listener run data ls w1
      in (w2, (l, res) # calls))"

definition emit ::
  "('a, 'd, 'e) behaviour \<Rightarrow> string \<Rightarrow> 'd \<Rightarrow> 'a bus_world
     \<Rightarrow> ('a bus_world \<times> (listener \<times> 'e outcome) list) \<times> 'e outcome" where
  "emit run event data w =
     (case events w event of
        None \<Rightarrow> ((w, []), Returned)
      | Some listeners \<Rightarrow>
          let listenersCopy = listeners
          in (forEach_listener run data listenersCopy w, Returned))"

fun console_errors :: "(listener \<times> 'e outcome) list \<Rightarrow> 'e list" where
  "console_errors [] = []"
| "console_errors ((l, Threw e) # cs) = e # console_errors cs"
| "console_errors ((l, Returned) # cs) = console_errors cs"

definition subscribers :: "'a bus_world \<Rightarrow> string \<Rightarrow> listener list" where
  "subscribers w event = (case events w event of None \<Rightarrow> [] | Some ls \<Rightarrow> ls)"

lemma subscribers_on:
  "subscribers (on event cb ctx w) event
     = subscribers w event @ [\<lparr>callback = cb, this_context = ctx\<rparr>]"
  by (auto simp: on_def subscribers_def Let_def)

lemma forEach_listener_calls:
  "map fst (snd (forEach_listener run data ls w)) = ls"
proof (induction ls arbitrary: w)
  case Nil
  then show ?case by simp
next
  case (Cons l ls)
  obtain w1 res where r: "run (callback l) (this_context l) data w = (w1, res)"
    by fastforce
  obtain w2 calls where f: "forEach_listener run data ls w1 = (w2, calls)"
    by fastforce
  from Cons.IH [of w1] f have "map fst calls = ls" by simp
  with r f show ?case by simp
qed

text \<open>Each call of the loop sees the world left by the calls before it.\<close>

lemma forEach_listener_append:
  "forEach_listener run data (ls @ ms) w =
     (let (w1, cs) = forEach_listener run data ls w;
          (w2, ds) = forEach_listener run data ms w1
      in (w2, cs @ ds))"
  by (induction ls arbitrary: w) (simp_all add: Let_def split: prod.splits)

text \<open>
  Claim C8: for every event name and payload, and whatever the handlers do, \<open>emit\<close>
  returns to its caller (no exception leaves it), and the calls it made are exactly the
  listeners registered for the event when \<open>emit\<close> was entered, each once, in the order of
  the list, which is subscription order (\<open>subscribers_on\<close>): a handler that throws, or
  that changes the subscriptions, does not change which calls follow.
\<close>

theorem emit_isolates_handlers:
  "snd (emit run event data w) = Returned \<and>
   map fst (snd (fst (emit run event data w))) = subscribers w event"
  by (simp add: emit_def subscribers_def forEach_listener_calls split: option.splits)

text \<open>
  An emission where the first handler throws and the second unsubscribes the third: all
  three are called, in order, and only afterwards is the third gone.
\<close>

definition sample_run :: "(nat, unit, string) behaviour" where
  "sample_run cb ctx data w =
     (if cb = 0 then (w, Threw ''boom'')
      else if cb = 1 then (fst (off ''tick'' 2 None w), Returned)
      else (w\<lparr>app := Suc (app w)\<rparr>, Returned))"

definition sample_world :: "nat bus_world" where
  "sample_world =
     on ''tick'' 2 None (on ''tick'' 1 None (on ''tick'' 0 None \<lparr>events = Map.empty, app = 0\<rparr>))"

theorem emit_isolates_handlers_witness:
  "snd (emit sample_run ''tick'' () sample_world) = Returned \<and>
   snd (fst (emit sample_run ''tick'' () sample_world)) =
     [(\<lparr>callback = 0, this_context = None\<rparr>, Threw ''boom''),
      (\<lparr>callback = 1, this_context = None\<rparr>, Returned),
      (\<lparr>callback = 2, this_context = None\<rparr>, Returned)] \<and>
   app (fst (fst (emit sample_run ''tick'' () sample_world))) = 1 \<and>
   subscribers (fst (fst (emit sample_run ''tick'' () sample_world))) ''tick'' =
     [\<lparr>callback = 0, this_context = None\<rparr>, \<lparr>callback = 1, this_context = None\<rparr>]"
  using emit_isolates_handlers [of sample_run "''tick''" "()" sample_world]
  by (simp add: emit_def sample_world_def sample_run_def on_def off_def subscribers_def
      Let_def)

section \<open>ImageManager and DragHandler (scripts/managers/ImageManager.js, scripts/interactions/DragHandler.js)\<close>

text \<open>
  Pixel quantities of the layout are whole numbers: the metadata dimensions are integers,
  the container width is a whole number of pixels, and the offsets that \<open>endDrag\<close> and
  \<open>startDrag\<close> read with \<open>parseInt\<close> from \<open>style.left\<close> and \<open>style.top\<close> are the whole
  numbers written there. On whole numbers \<open>Math.floor (a / b)\<close> is the floor of the exact
  quotient.

  Two things JavaScript does that the integers cannot hold are results of their own:
  a \<open>TypeError\<close> that leaves the function, and a value that is \<open>NaN\<close> or infinite.
\<close>

text \<open>\<open>a || b\<close> on numbers: \<open>a\<close> unless it is 0.\<close>

definition js_or :: "int \<Rightarrow> int \<Rightarrow> int" where
  "js_or a b = (if a \<noteq> 0 then a else b)"

text \<open>
  The configuration values read by the functions below, and the manager's two arrays.
  \<open>containerWidth\<close> is \<open>containerElement.getBoundingClientRect().width\<close> and \<open>innerWidth\<close>
  is \<open>window.innerWidth\<close>; neither is negative.
\<close>

record im_config =
  minSpacing :: int
  goalPixels :: int

definition default_im_config :: im_config where
  "default_im_config = \<lparr>minSpacing = 20, goalPixels = 150000\<rparr>"

record image_manager =
  im_config :: im_config
  positions :: "(int \<times> int) list"
  sizes :: "(int \<times> int) list"
  containerWidth :: nat
  innerWidth :: nat

text \<open>
  \<open>a / b > k\<close> for a positive \<open>k\<close>: for \<open>b = 0\<close> the quotient is \<open>Infinity\<close>, \<open>-Infinity\<close> or
  \<open>NaN\<close>, and exceeds \<open>k\<close> only in the first case, when \<open>a\<close> is positive.
\<close>

definition quotient_exceeds :: "int \<Rightarrow> int \<Rightarrow> real \<Rightarrow> bool" where
  "quotient_exceeds a b k = (if b = 0 then 0 < a else real_of_int a / real_of_int b > k)"

text \<open>
  The body of the \<open>map\<close> in \<open>calculateScaledSizes\<close>, for one metadata entry \<open>[w, h]\<close>. When
  the width is clamped the height is \<open>Math.floor (scaledHeight * (scaledWidth / (w / 2)))\<close>;
  for \<open>w = 0\<close> that is no finite number, and the list of sizes as a whole is then
  outside the model (\<open>calculateScaledSizes\<close> answers \<open>NotANumber\<close>). The container element is
  taken to be set, as after \<open>initialize\<close>.
\<close>

definition scaled_size :: "image_manager \<Rightarrow> int \<times> int \<Rightarrow> js_fault + int \<times> int" where
  "scaled_size im wh =
     (let w = fst wh; h = snd wh;
          screenWidth = int (containerWidth im);
          effectiveWidth = (if screenWidth > 0 then screenWidth
                            else js_or (int (innerWidth im)) 1200);
          actualPixels = w * h;
          goal = goalPixels (im_config im);
          scaled =
            (if quotient_exceeds actualPixels goal 16
             then (\<lfloor>real_of_int w / 8\<rfloor>, \<lfloor>real_of_int h / 8\<rfloor>)
             else if quotient_exceeds actualPixels goal 4
             then (\<lfloor>real_of_int w / 4\<rfloor>, \<lfloor>real_of_int h / 4\<rfloor>)
             else (\<lfloor>real_of_int w / 2\<rfloor>, \<lfloor>real_of_int h / 2\<rfloor>));
          scaledWidth = fst scaled;
          scaledHeight = snd scaled
      in if scaledWidth + 10 > effectiveWidth then
           (if w = 0 then Inl NotANumber
            else
              let scaledWidth = effectiveWidth - 10
              in Inr (scaledWidth,
                      \<lfloor>real_of_int scaledHeight *
                         (real_of_int scaledWidth / (real_of_int w / 2))\<rfloor>))
         else Inr (scaledWidth, scaledHeight))"

fun collect :: "('e + 'b) list \<Rightarrow> 'e + 'b list" where
  "collect [] = Inr []"
| "collect (Inl e # rs) = Inl e"
| "collect (Inr x # rs) = (case collect rs of Inl e \<Rightarrow> Inl e | Inr xs \<Rightarrow> Inr (x # xs))"

definition calculateScaledSizes ::
  "image_manager \<Rightarrow> (string \<times> int \<times> int) list \<Rightarrow> js_fault + image_manager" where
  "calculateScaledSizes im metadata =
     (case collect (map (\<lambda>entry. scaled_size im (snd entry)) metadata) of
        Inl e \<Rightarrow> Inl e
      | Inr szs \<Rightarrow> Inr (im\<lparr>sizes := szs\<rparr>))"

text \<open>
  \<open>calculatePosition\<close>. For \<open>width + 20 = 0\<close> the column count is \<open>Infinity\<close> in JavaScript:
  the row is then 0, the column is the index, and the position is
  \<open>(index * 0 + 10, 0 * (height + 20) + 10)\<close>.
\<close>

definition calculatePosition :: "image_manager \<Rightarrow> int \<times> int \<Rightarrow> nat \<Rightarrow> int \<times> int" where
  "calculatePosition im sz index =
     (let width = fst sz; height = snd sz;
          screenWidth = js_or (int (containerWidth im)) (js_or (int (innerWidth im)) 1200)
      in if width + 20 = 0 then (10, 10)
         else
           let cols = max 1 \<lfloor>real_of_int screenWidth / real_of_int (width + 20)\<rfloor>;
               row = \<lfloor>real index / real_of_int cols\<rfloor>;
               col = int index mod cols;
               x = col * (width + 20) + 10;
               y = row * (height + 20) + 10
           in (x, y))"

subsection \<open>Collision test\<close>

text \<open>
  The test inside the loop of \<open>wouldOverlap\<close>, on a box at \<open>pos\<close> of size \<open>sz\<close> and another
  box: the two intersect once one of them is grown by \<open>buffer\<close> on every side.
\<close>

definition buffered_hit ::
  "int \<Rightarrow> int \<times> int \<Rightarrow> int \<times> int \<Rightarrow> int \<times> int \<Rightarrow> int \<times> int \<Rightarrow> bool" where
  "buffered_hit buffer pos sz otherPos otherSize =
     (fst pos < fst otherPos + fst otherSize + buffer \<and>
      fst pos + fst sz + buffer > fst otherPos \<and>
      snd pos + snd sz + buffer > snd otherPos \<and>
      snd pos < snd otherPos + snd otherSize + buffer)"

text \<open>
  The loop of \<open>wouldOverlap\<close> from index \<open>i\<close> on, over the rest of \<open>positions\<close> and of
  \<open>sizes\<close>. The excluded index is skipped before \<open>sizes[i]\<close> is read; reading a size that
  is not there (destructuring \<open>undefined\<close>) raises \<open>TypeError\<close>.
\<close>

fun overlap_loop ::
  "int \<Rightarrow> int \<times> int \<Rightarrow> int \<times> int \<Rightarrow> int \<Rightarrow> nat \<Rightarrow> (int \<times> int) list \<Rightarrow> (int \<times> int) list
     \<Rightarrow> js_fault + bool" where
  "overlap_loop buffer pos sz excludeIndex i [] ss = Inr False"
| "overlap_loop buffer pos sz excludeIndex i (p # ps) ss =
     (if int i = excludeIndex then overlap_loop buffer pos sz excludeIndex (Suc i) ps (tl ss)
      else
        (case ss of
           [] \<Rightarrow> Inl TypeError
         | s # ss' \<Rightarrow>
             if buffered_hit buffer pos sz p s then Inr True
             else overlap_loop buffer pos sz excludeIndex (Suc i) ps ss'))"

definition wouldOverlap ::
  "image_manager \<Rightarrow> int \<Rightarrow> int \<Rightarrow> int \<Rightarrow> int \<Rightarrow> int \<Rightarrow> js_fault + bool" where
  "wouldOverlap im x y width height excludeIndex =
     overlap_loop (minSpacing (im_config im)) (x, y) (width, height) excludeIndex 0
       (positions im) (sizes im)"

definition updateImagePosition :: "image_manager \<Rightarrow> int \<Rightarrow> int \<times> int \<Rightarrow> image_manager" where
  "updateImagePosition im index position =
     (if index \<ge> 0 \<and> index < int (length (positions im))
      then im\<lparr>positions := (positions im)[nat index := position]\<rparr>
      else im)"

subsection \<open>DragHandler\<close>

text \<open>
  A tile's element in the page: its \<open>data-drag-index\<close> attribute, \<open>style.left\<close> and
  \<open>style.top\<close>, the size of its bounding rectangle, \<open>style.zIndex\<close> and whether it
  carries the class \<open>overlap-warning\<close>. The handler refers to the element it drags by the
  element's place in the page (JavaScript holds a reference). \<open>dragOffset\<close>, which no
  function reads, and the shake animation are left out.
\<close>

record drag_config =
  drag_snapToGrid :: bool
  drag_gridSize :: int
  boundaryPadding :: int

definition default_drag_config :: drag_config where
  "default_drag_config = \<lparr>drag_snapToGrid = False, drag_gridSize = 10, boundaryPadding = 10\<rparr>"

record element =
  drag_index :: int
  left :: int
  top :: int
  rect_width :: int
  rect_height :: int
  zIndex :: string
  overlap_warning :: bool

record drag_handler =
  drag_config :: drag_config
  isDragging :: bool
  dragged :: "nat option"
  drag_startPosition :: "int \<times> int"
  initialPosition :: "int \<times> int"

definition idle_drag_handler :: drag_handler where
  "idle_drag_handler =
     \<lparr>drag_config = default_drag_config, isDragging = False, dragged = None,
      drag_startPosition = (0, 0), initialPosition = (0, 0)\<rparr>"

datatype drag_event =
  DragStart int "int \<times> int"
  | DragMove int "int \<times> int" bool
  | DragEnd int "int \<times> int" "int \<times> int"
  | DragCancelled int string "int \<times> int" "int \<times> int"

text \<open>
  The page: the manager, the elements of the tiles in index order, and the one drag
  handler, whose \<open>imageManager\<close> is that manager (the application sets it right after
  construction). \<open>document.getElementById('container')\<close> is the manager's container
  element, set by \<open>initialize\<close>.
\<close>

record page =
  manager :: image_manager
  elements :: "element list"
  handler :: drag_handler

definition startDrag :: "page \<Rightarrow> nat \<Rightarrow> int \<Rightarrow> int \<Rightarrow> page \<times> drag_event list" where
  "startDrag pg k clientX clientY =
     (if isDragging (handler pg) \<or> length (elements pg) \<le> k then (pg, [])
      else
        let container = elements pg ! k;
            initial = (js_or (left container) 0, js_or (top container) 0)
        in (pg\<lparr>handler := (handler pg)\<lparr>isDragging := True, dragged := Some k,
                    initialPosition := initial, drag_startPosition := (clientX, clientY)\<rparr>,
                elements := (elements pg)[k := container\<lparr>zIndex := ''1000''\<rparr>]\<rparr>,
            [DragStart (drag_index container) initial]))"

definition applyBoundaryConstraints :: "page \<Rightarrow> element \<Rightarrow> int \<Rightarrow> int \<Rightarrow> int \<times> int" where
  "applyBoundaryConstraints pg container x y =
     (let minX = boundaryPadding (drag_config (handler pg));
          minY = boundaryPadding (drag_config (handler pg));
          maxX = int (containerWidth (manager pg)) - rect_width container
                   - boundaryPadding (drag_config (handler pg))
      in (max minX (min x maxX), max minY y))"

definition checkOverlap :: "page \<Rightarrow> element \<Rightarrow> int \<Rightarrow> int \<Rightarrow> int \<Rightarrow> js_fault + bool" where
  "checkOverlap pg container x y excludeIndex =
     wouldOverlap (manager pg) x y (rect_width container) (rect_height container) excludeIndex"

text \<open>\<open>Math.round (v / g) * g\<close>.\<close>

definition snap :: "int \<Rightarrow> int \<Rightarrow> int" where
  "snap g v = \<lfloor>real_of_int v / real_of_int g + 1 / 2\<rfloor> * g"

definition updateDragPosition ::
  "page \<Rightarrow> int \<Rightarrow> int \<Rightarrow> js_fault + page \<times> drag_event list" where
  "updateDragPosition pg clientX clientY =
     (case dragged (handler pg) of
        None \<Rightarrow> Inr (pg, [])
      | Some k \<Rightarrow>
          let h = handler pg;
              container = elements pg ! k;
              deltaX = clientX - fst (drag_startPosition h);
              deltaY = clientY - snd (drag_startPosition h);
              constrained = applyBoundaryConstraints pg container
                              (fst (initialPosition h) + deltaX) (snd (initialPosition h) + deltaY);
              g = drag_gridSize (drag_config h)
          in if drag_snapToGrid (drag_config h) \<and> g = 0 then Inl NotANumber
             else
               let newX = (if drag_snapToGrid (drag_config h) then snap g (fst constrained)
                           else fst constrained);
                   newY = (if drag_snapToGrid (drag_config h) then snap g (snd constrained)
                           else snd constrained);
                   index = drag_index container
               in (case checkOverlap pg container newX newY index of
                     Inl e \<Rightarrow> Inl e
                   | Inr hit \<Rightarrow>
                       Inr (pg\<lparr>elements := (elements pg)
                                 [k := container\<lparr>overlap_warning := hit, left := newX,
                                        top := newY\<rparr>]\<rparr>,
                            [DragMove index (newX, newY) hit])))"

definition endDrag :: "page \<Rightarrow> js_fault + page \<times> drag_event list" where
  "endDrag pg =
     (case dragged (handler pg) of
        None \<Rightarrow> Inr (pg, [])
      | Some k \<Rightarrow>
          if \<not> isDragging (handler pg) then Inr (pg, [])
          else
            let container = elements pg ! k;
                index = drag_index container;
                finalPosition = (left container, top container)
            in (case checkOverlap pg container (fst finalPosition) (snd finalPosition) index of
                  Inl e \<Rightarrow> Inl e
                | Inr hit \<Rightarrow>
                    let initial = initialPosition (handler pg);
                        container = (if hit then container\<lparr>left := fst initial, top := snd initial\<rparr>
                                     else container);
                        emitted = (if hit then [DragCancelled index ''overlap'' initial finalPosition]
                                   else [DragEnd index finalPosition initial]);
                        container = container\<lparr>zIndex := ''auto'', overlap_warning := False\<rparr>
                    in Inr (pg\<lparr>elements := (elements pg)[k := container],
                                handler := (handler pg)\<lparr>isDragging := False, dragged := None\<rparr>\<rparr>,
                            emitted)))"

text \<open>
  \<open>ImageManager.handleDragEnd\<close>, the manager's listener for \<open>drag:end\<close>, as far as the
  layout goes (it also hands the position to the state store, see below).
\<close>

fun handleDragEnd :: "image_manager \<Rightarrow> drag_event \<Rightarrow> image_manager" where
  "handleDragEnd im (DragEnd index position previous) = updateImagePosition im index position"
| "handleDragEnd im e = im"

text \<open>
  Pointer input: \<open>handleMouseDown\<close> on the body of tile \<open>k\<close> (\<open>handleTouchStart\<close> does the
  same), \<open>handleMouseMove\<close>, \<open>handleMouseUp\<close>. \<open>emit\<close> is synchronous, so the manager has
  handled \<open>drag:end\<close> when \<open>handleMouseUp\<close> returns. A press on a tile that the page
  does not have cannot occur; \<open>startDrag\<close> leaves the page as it is then.
\<close>

datatype pointer_event = MouseDown nat int int | MouseMove int int | MouseUp

fun pointer :: "page \<Rightarrow> pointer_event \<Rightarrow> js_fault + page \<times> drag_event list" where
  "pointer pg (MouseDown k x y) = Inr (startDrag pg k x y)"
| "pointer pg (MouseMove x y) =
     (if \<not> isDragging (handler pg) then Inr (pg, []) else updateDragPosition pg x y)"
| "pointer pg MouseUp =
     (if \<not> isDragging (handler pg) then Inr (pg, [])
      else
        (case endDrag pg of
           Inl e \<Rightarrow> Inl e
         | Inr (pg1, emitted) \<Rightarrow>
             Inr (pg1\<lparr>manager := fold (\<lambda>e im. handleDragEnd im e) emitted (manager pg1)\<rparr>,
                  emitted)))"

fun pointers :: "page \<Rightarrow> pointer_event list \<Rightarrow> js_fault + page \<times> drag_event list" where
  "pointers pg [] = Inr (pg, [])"
| "pointers pg (e # es) =
     (case pointer pg e of
        Inl f \<Rightarrow> Inl f
      | Inr (pg1, out1) \<Rightarrow>
          (case pointers pg1 es of
             Inl f \<Rightarrow> Inl f
           | Inr (pg2, out2) \<Rightarrow> Inr (pg2, out1 @ out2)))"

subsection \<open>Fresh placement\<close>

text \<open>
  \<open>loadSingleImage\<close> for an image without saved state, given its scaled size and index:
  the position is computed and pushed, the element is created with that position and
  size (\<open>setPosition\<close>, \<open>setSize\<close>; its rectangle is taken to be exactly that size) and
  the drag handler is attached with the index. \<open>fresh_page\<close> is the page after the sizes
  have been stored in \<open>sizes\<close> and every index has been loaded in order with its own
  scaled size, which is what \<open>loadImagesProgressively\<close> asks for.
\<close>

definition loadSingleImage :: "page \<Rightarrow> int \<times> int \<Rightarrow> nat \<Rightarrow> page" where
  "loadSingleImage pg scaledSize index =
     (let finalPosition = calculatePosition (manager pg) scaledSize index;
          finalSize = scaledSize;
          container = \<lparr>drag_index = int index, left = fst finalPosition, top = snd finalPosition,
                       rect_width = fst finalSize, rect_height = snd finalSize,
                       zIndex = [], overlap_warning = False\<rparr>
      in pg\<lparr>manager := (manager pg)\<lparr>positions := positions (manager pg) @ [finalPosition]\<rparr>,
             elements := elements pg @ [container]\<rparr>)"

fun place_from :: "page \<Rightarrow> nat \<Rightarrow> (int \<times> int) list \<Rightarrow> page" where
  "place_from pg i [] = pg"
| "place_from pg i (s # ss) = place_from (loadSingleImage pg s i) (Suc i) ss"

definition empty_page :: "nat \<Rightarrow> nat \<Rightarrow> page" where
  "empty_page cw iw =
     \<lparr>manager = \<lparr>im_config = default_im_config, positions = [], sizes = [],
                  containerWidth = cw, innerWidth = iw\<rparr>,
      elements = [], handler = idle_drag_handler\<rparr>"

definition fresh_page :: "nat \<Rightarrow> nat \<Rightarrow> (int \<times> int) list \<Rightarrow> page" where
  "fresh_page cw iw szs =
     (let pg = empty_page cw iw
      in place_from (pg\<lparr>manager := (manager pg)\<lparr>sizes := szs\<rparr>\<rparr>) 0 szs)"

text \<open>The layout invariant: no two distinct tiles hit each other with the buffer.\<close>

definition no_overlap :: "image_manager \<Rightarrow> bool" where
  "no_overlap im =
     (\<forall>i < length (positions im). \<forall>j < length (positions im). i \<noteq> j \<longrightarrow>
        \<not> buffered_hit (minSpacing (im_config im)) (positions im ! i) (sizes im ! i)
             (positions im ! j) (sizes im ! j))"

text \<open>The offset of tile \<open>k\<close>'s element: \<open>style.left\<close> and \<open>style.top\<close>.\<close>

definition offset :: "page \<Rightarrow> nat \<Rightarrow> int \<times> int" where
  "offset pg k = (left (elements pg ! k), top (elements pg ! k))"

subsection \<open>Properties of the collision test and of the grid\<close>






subsection \<open>The freshly placed page\<close>

lemma loadSingleImage_fields:
  "sizes (manager (loadSingleImage pg s i)) = sizes (manager pg) \<and>
   im_config (manager (loadSingleImage pg s i)) = im_config (manager pg) \<and>
   containerWidth (manager (loadSingleImage pg s i)) = containerWidth (manager pg) \<and>
   innerWidth (manager (loadSingleImage pg s i)) = innerWidth (manager pg) \<and>
   handler (loadSingleImage pg s i) = handler pg"
  by (simp add: loadSingleImage_def Let_def)

lemma calculatePosition_cong:
  "containerWidth im' = containerWidth im \<Longrightarrow> innerWidth im' = innerWidth im \<Longrightarrow>
   calculatePosition im' s i = calculatePosition im s i"
  by (simp add: calculatePosition_def)

definition fresh_element :: "image_manager \<Rightarrow> int \<times> int \<Rightarrow> nat \<Rightarrow> element" where
  "fresh_element im s i =
     \<lparr>drag_index = int i, left = fst (calculatePosition im s i),
      top = snd (calculatePosition im s i), rect_width = fst s, rect_height = snd s,
      zIndex = [], overlap_warning = False\<rparr>"

lemma place_from_result:
  "sizes (manager (place_from pg i ss)) = sizes (manager pg) \<and>
   im_config (manager (place_from pg i ss)) = im_config (manager pg) \<and>
   containerWidth (manager (place_from pg i ss)) = containerWidth (manager pg) \<and>
   innerWidth (manager (place_from pg i ss)) = innerWidth (manager pg) \<and>
   handler (place_from pg i ss) = handler pg \<and>
   positions (manager (place_from pg i ss)) =
     positions (manager pg) @ map (\<lambda>k. calculatePosition (manager pg) (ss ! k) (i + k)) [0..<length ss] \<and>
   elements (place_from pg i ss) =
     elements pg @ map (\<lambda>k. fresh_element (manager pg) (ss ! k) (i + k)) [0..<length ss]"
proof (induction ss arbitrary: pg i)
  case Nil
  then show ?case by simp
next
  case (Cons s ss)
  let ?pg1 = "loadSingleImage pg s i"
  have cp: "calculatePosition (manager ?pg1) t k = calculatePosition (manager pg) t k" for t k
    by (intro calculatePosition_cong) (simp_all add: loadSingleImage_fields)
  have fe: "fresh_element (manager ?pg1) t k = fresh_element (manager pg) t k" for t k
    by (simp add: fresh_element_def cp)
  have p1: "positions (manager ?pg1) = positions (manager pg) @ [calculatePosition (manager pg) s i]"
    by (simp add: loadSingleImage_def Let_def)
  have e1: "elements ?pg1 = elements pg @ [fresh_element (manager pg) s i]"
    by (simp add: loadSingleImage_def fresh_element_def Let_def)
  have shift: "map f [0..<Suc (length ss)] = f 0 # map (\<lambda>k. f (Suc k)) [0..<length ss]"
    for f :: "nat \<Rightarrow> 'b"
  proof -
    have "[0..<Suc (length ss)] = 0 # map Suc [0..<length ss]"
      by (simp only: upt_conv_Cons [OF zero_less_Suc] map_Suc_upt)
    then show ?thesis by (simp only: list.map map_map o_def)
  qed
  show ?case
    using Cons.IH [of ?pg1 "Suc i"]
    by (simp add: loadSingleImage_fields cp fe p1 e1 shift del: upt_Suc)
qed

lemma fresh_page_shape:
  "sizes (manager (fresh_page cw iw szs)) = szs \<and>
   im_config (manager (fresh_page cw iw szs)) = default_im_config \<and>
   handler (fresh_page cw iw szs) = idle_drag_handler \<and>
   length (positions (manager (fresh_page cw iw szs))) = length szs \<and>
   length (elements (fresh_page cw iw szs)) = length szs \<and>
   (\<forall>k < length szs.
      positions (manager (fresh_page cw iw szs)) ! k =
        calculatePosition (manager (fresh_page cw iw szs)) (szs ! k) k \<and>
      drag_index (elements (fresh_page cw iw szs) ! k) = int k \<and>
      rect_width (elements (fresh_page cw iw szs) ! k) = fst (szs ! k) \<and>
      rect_height (elements (fresh_page cw iw szs) ! k) = snd (szs ! k))"
proof -
  define pg0 where "pg0 = (empty_page cw iw)\<lparr>manager := (manager (empty_page cw iw))\<lparr>sizes := szs\<rparr>\<rparr>"
  have fp: "fresh_page cw iw szs = place_from pg0 0 szs"
    by (simp add: fresh_page_def pg0_def Let_def)
  have pg0: "sizes (manager pg0) = szs" "im_config (manager pg0) = default_im_config"
    "handler pg0 = idle_drag_handler" "positions (manager pg0) = []" "elements pg0 = []"
    by (simp_all add: pg0_def empty_page_def)
  note r = place_from_result [of pg0 0 szs]
  have cp: "calculatePosition (manager (place_from pg0 0 szs)) t k =
            calculatePosition (manager pg0) t k" for t k
    by (intro calculatePosition_cong) (simp_all add: r)
  have pos: "positions (manager (place_from pg0 0 szs)) =
     map (\<lambda>k. calculatePosition (manager pg0) (szs ! k) k) [0..<length szs]"
    using r pg0(4) by simp
  have els: "elements (place_from pg0 0 szs) =
     map (\<lambda>k. fresh_element (manager pg0) (szs ! k) k) [0..<length szs]"
    using r pg0(5) by simp
  have a: "sizes (manager (place_from pg0 0 szs)) = szs"
    "im_config (manager (place_from pg0 0 szs)) = default_im_config"
    "handler (place_from pg0 0 szs) = idle_drag_handler"
    using r pg0 by simp_all
  have b: "length (positions (manager (place_from pg0 0 szs))) = length szs"
    "length (elements (place_from pg0 0 szs)) = length szs"
    by (simp_all add: pos els)
  have c: "positions (manager (place_from pg0 0 szs)) ! k =
        calculatePosition (manager (place_from pg0 0 szs)) (szs ! k) k \<and>
      drag_index (elements (place_from pg0 0 szs) ! k) = int k \<and>
      rect_width (elements (place_from pg0 0 szs) ! k) = fst (szs ! k) \<and>
      rect_height (elements (place_from pg0 0 szs) ! k) = snd (szs ! k)" if "k < length szs" for k
    using that by (simp add: pos els cp fresh_element_def)
  show ?thesis unfolding fp using a b c by blast
qed

subsection \<open>Pointer input keeps the layout free of overlap\<close>















text \<open>
  Two tiles of 50 by 50 in a container 800 wide, and two drags of the second tile: one
  released clear of the first tile, one released within 20 pixels of it.
\<close>

definition twin_page :: page where
  "twin_page = fresh_page 800 1024 [(50, 50), (50, 50)]"

lemma twin_page_eval:
  "twin_page =
     \<lparr>manager = \<lparr>im_config = default_im_config, positions = [(10, 10), (80, 10)],
                  sizes = [(50, 50), (50, 50)], containerWidth = 800, innerWidth = 1024\<rparr>,
      elements =
        [\<lparr>drag_index = 0, left = 10, top = 10, rect_width = 50, rect_height = 50,
          zIndex = [], overlap_warning = False\<rparr>,
         \<lparr>drag_index = 1, left = 80, top = 10, rect_width = 50, rect_height = 50,
          zIndex = [], overlap_warning = False\<rparr>],
      handler = idle_drag_handler\<rparr>"
  by (simp add: twin_page_def fresh_page_def empty_page_def loadSingleImage_def
      calculatePosition_def js_or_def Let_def)


lemma twin_revert:
  "\<exists>pg out. pointers twin_page [MouseDown 1 85 15, MouseMove 80 15, MouseUp] = Inr (pg, out) \<and>
     positions (manager pg) = [(10, 10), (80, 10)] \<and> offset pg 1 = (80, 10) \<and>
     out = [DragStart 1 (80, 10), DragMove 1 (75, 10) True,
            DragCancelled 1 ''overlap'' (80, 10) (75, 10)]"
  by (simp add: twin_page_eval startDrag_def updateDragPosition_def endDrag_def
      applyBoundaryConstraints_def checkOverlap_def wouldOverlap_def buffered_hit_def
      updateImagePosition_def idle_drag_handler_def default_drag_config_def
      default_im_config_def js_or_def offset_def Let_def)




subsection \<open>One drag, from press to release\<close>






subsection \<open>The scaling scenario\<close>

definition scenario_a :: "string \<times> int \<times> int" where
  "scenario_a = (''a.png'', (1000, 1000))"

definition scenario_b :: "string \<times> int \<times> int" where
  "scenario_b = (''b.png'', (100, 100))"

lemma scenario_sizes:
  "calculateScaledSizes (manager (empty_page 800 iw)) [scenario_a, scenario_b] =
     Inr ((manager (empty_page 800 iw))\<lparr>sizes := [(250, 250), (50, 50)]\<rparr>)"
  "calculateScaledSizes (manager (empty_page 800 iw)) [scenario_b, scenario_a] =
     Inr ((manager (empty_page 800 iw))\<lparr>sizes := [(50, 50), (250, 250)]\<rparr>)"
  by (simp_all add: calculateScaledSizes_def scaled_size_def quotient_exceeds_def
      empty_page_def default_im_config_def scenario_a_def scenario_b_def Let_def)

lemma scenario_positions:
  "positions (manager (fresh_page 800 iw [(250, 250), (50, 50)])) = [(10, 10), (80, 10)]"
  "positions (manager (fresh_page 800 iw [(50, 50), (250, 250)])) = [(10, 10), (280, 10)]"
  "sizes (manager (fresh_page 800 iw szs)) = szs"
  "minSpacing (im_config (manager (fresh_page 800 iw szs))) = 20"
  using fresh_page_shape [of 800 iw szs]
  by (simp_all add: fresh_page_def empty_page_def loadSingleImage_def
      calculatePosition_def js_or_def default_im_config_def Let_def)

text \<open>
  Claim C6, as stated, fails. The area ratio of \<open>a.png\<close> is 1000000 / 150000, above 4, so
  it is scaled by 1/4 to 250 by 250, not by 1/2; 250 + 10 does not exceed 800, so nothing
  is clamped to 790. In metadata order the tiles land at (10, 10) and (80, 10), and the
  second hits the first.
\<close>

theorem scaling_scenario_counterexample:
  "calculateScaledSizes (manager (empty_page 800 1024)) [scenario_a, scenario_b] =
     Inr ((manager (empty_page 800 1024))\<lparr>sizes := [(250, 250), (50, 50)]\<rparr>) \<and>
   positions (manager (fresh_page 800 1024 [(250, 250), (50, 50)])) = [(10, 10), (80, 10)] \<and>
   wouldOverlap (manager (fresh_page 800 1024 [(250, 250), (50, 50)])) 80 10 50 50 1 = Inr True"
  by (simp add: scenario_sizes scenario_positions wouldOverlap_def buffered_hit_def)

text \<open>
  Claim C6, amended: for the metadata of the scenario and a container 800 wide,
  \<open>calculateScaledSizes\<close> yields 250 by 250 for \<open>a.png\<close> and 50 by 50 for \<open>b.png\<close>, in
  either processing order. \<open>calculatePosition\<close> puts the tile processed first at (10, 10);
  the second at (80, 10) when \<open>a.png\<close> is first, and at (280, 10) when \<open>b.png\<close> is first,
  and in that order the two tiles do not hit each other with the buffer of 20.
\<close>

theorem scaling_scenario:
  "calculateScaledSizes (manager (empty_page 800 iw)) [scenario_a, scenario_b] =
     Inr ((manager (empty_page 800 iw))\<lparr>sizes := [(250, 250), (50, 50)]\<rparr>) \<and>
   calculateScaledSizes (manager (empty_page 800 iw)) [scenario_b, scenario_a] =
     Inr ((manager (empty_page 800 iw))\<lparr>sizes := [(50, 50), (250, 250)]\<rparr>) \<and>
   positions (manager (fresh_page 800 iw [(250, 250), (50, 50)])) = [(10, 10), (80, 10)] \<and>
   positions (manager (fresh_page 800 iw [(50, 50), (250, 250)])) = [(10, 10), (280, 10)] \<and>
   no_overlap (manager (fresh_page 800 iw [(50, 50), (250, 250)]))"
proof -
  have "no_overlap (manager (fresh_page 800 iw [(50, 50), (250, 250)]))"
    unfolding no_overlap_def
    by (simp add: scenario_positions buffered_hit_def less_Suc_eq)
  then show ?thesis by (simp add: scenario_sizes scenario_positions)
qed

theorem scaling_scenario_witness:
  "calculateScaledSizes (manager (empty_page 800 1024)) [scenario_b, scenario_a] =
     Inr ((manager (empty_page 800 1024))\<lparr>sizes := [(50, 50), (250, 250)]\<rparr>) \<and>
   positions (manager (fresh_page 800 1024 [(50, 50), (250, 250)])) = [(10, 10), (280, 10)] \<and>
   no_overlap (manager (fresh_page 800 1024 [(50, 50), (250, 250)]))"
  using scaling_scenario [of 1024] by simp

subsection \<open>loadImages on a visit without saved state\<close>

text \<open>
  The claims above are about the placement functions themselves. \<open>loadImages\<close> calls them
  in this order: \<open>calculateScaledSizes\<close>, which stores the sizes; \<open>clearAllImages\<close>, which
  empties \<open>positions\<close> and \<open>sizes\<close> again; \<open>loadImagesProgressively\<close>, which reads
  \<open>sizes[i]\<close> for every index. On a visit without saved state that read is \<open>undefined\<close>,
  \<open>calculatePosition\<close> raises \<open>TypeError\<close> on destructuring it, the loop catches the
  error, emits \<open>image:error\<close> and goes on. The list given to the three steps is the
  metadata in the order \<open>loadImages\<close> has settled on (shuffled or not).
\<close>

definition clearAllImages :: "page \<Rightarrow> page" where
  "clearAllImages pg =
     pg\<lparr>manager := (manager pg)\<lparr>positions := [], sizes := []\<rparr>, elements := []\<rparr>"

fun load_loop :: "page \<Rightarrow> nat \<Rightarrow> 'm list \<Rightarrow> page \<times> nat list" where
  "load_loop pg i [] = (pg, [])"
| "load_loop pg i (entry # rest) =
     (if i < length (sizes (manager pg))
      then load_loop (loadSingleImage pg (sizes (manager pg) ! i) i) (Suc i) rest
      else
        let (pg1, failed) = load_loop pg (Suc i) rest
        in (pg1, i # failed))"

definition loadImagesProgressively :: "page \<Rightarrow> 'm list \<Rightarrow> page \<times> nat list" where
  "loadImagesProgressively pg metadata =
     load_loop (pg\<lparr>manager := (manager pg)\<lparr>positions := []\<rparr>\<rparr>) 0 metadata"

definition loadImages ::
  "page \<Rightarrow> (string \<times> int \<times> int) list \<Rightarrow> js_fault + page \<times> nat list" where
  "loadImages pg processedMetadata =
     (case calculateScaledSizes (manager pg) processedMetadata of
        Inl e \<Rightarrow> Inl e
      | Inr im \<Rightarrow>
          Inr (loadImagesProgressively (clearAllImages (pg\<lparr>manager := im\<rparr>)) processedMetadata))"

lemma load_loop_without_sizes:
  "sizes (manager pg) = [] \<Longrightarrow> load_loop pg i ms = (pg, [i..<i + length ms])"
proof (induction ms arbitrary: i)
  case Nil
  then show ?case by simp
next
  case (Cons m ms)
  have "[i..<i + length (m # ms)] = i # [Suc i..<Suc i + length ms]"
    by (simp add: upt_conv_Cons del: upt_Suc)
  with Cons.IH [OF Cons.prems, of "Suc i"] Cons.prems show ?case
    by (simp del: upt_Suc)
qed

text \<open>
  So on such a visit \<open>loadImages\<close> places no tile at all: every index fails, and
  \<open>positions\<close>, \<open>sizes\<close> and the page stay empty.
\<close>

lemma loadImages_places_nothing:
  assumes "loadImages pg md = Inr (pg', failed)"
  shows "positions (manager pg') = [] \<and> sizes (manager pg') = [] \<and> elements pg' = [] \<and>
         failed = [0..<length md]"
proof -
  from assms obtain im where
    r: "loadImagesProgressively (clearAllImages (pg\<lparr>manager := im\<rparr>)) md = (pg', failed)"
    by (auto simp: loadImages_def split: sum.splits)
  let ?pg0 = "(clearAllImages (pg\<lparr>manager := im\<rparr>))
                \<lparr>manager := (manager (clearAllImages (pg\<lparr>manager := im\<rparr>)))\<lparr>positions := []\<rparr>\<rparr>"
  have e: "sizes (manager ?pg0) = []" "positions (manager ?pg0) = []" "elements ?pg0 = []"
    by (simp_all add: clearAllImages_def)
  from r load_loop_without_sizes [OF e(1), of 0 md]
  have "pg' = ?pg0" "failed = [0..<length md]"
    by (simp_all add: loadImagesProgressively_def)
  with e show ?thesis by simp
qed

lemma loadImages_scenario:
  "loadImages (empty_page 800 1024) [scenario_a, scenario_b] = Inr (empty_page 800 1024, [0, 1])"
  unfolding loadImages_def scenario_sizes
  by (simp add: loadImagesProgressively_def clearAllImages_def empty_page_def)

section \<open>JavaScript values\<close>

text \<open>
  The state store and the storage layer handle values of any shape: what arrives from
  storage is whatever text was there. A number is a finite real or one of the three
  values that are not; an object is the list of its own properties in order. Property
  lookup does not follow the prototype chain, so names such as \<open>constructor\<close> are
  ordinary keys here.
\<close>

datatype jsnum = Fin real | NaN | PosInf | NegInf

datatype jsval =
  JUndefined
  | JNull
  | JBool bool
  | JNum jsnum
  | JStr string
  | JArr "jsval list"
  | JObj "(string \<times> jsval) list"

text \<open>Truthiness, and \<open>typeof v === 'object'\<close> (true of \<open>null\<close> and of arrays).\<close>

fun truthy :: "jsval \<Rightarrow> bool" where
  "truthy JUndefined = False"
| "truthy JNull = False"
| "truthy (JBool b) = b"
| "truthy (JNum (Fin r)) = (r \<noteq> 0)"
| "truthy (JNum NaN) = False"
| "truthy (JNum PosInf) = True"
| "truthy (JNum NegInf) = True"
| "truthy (JStr s) = (s \<noteq> [])"
| "truthy (JArr xs) = True"
| "truthy (JObj kvs) = True"

fun typeof_object :: "jsval \<Rightarrow> bool" where
  "typeof_object JNull = True"
| "typeof_object (JArr xs) = True"
| "typeof_object (JObj kvs) = True"
| "typeof_object v = False"

text \<open>
  Property access \<open>v[k]\<close>. An array has \<open>length\<close> and its elements under the canonical
  decimal names of their indices, which are also the keys a \<open>for ... in\<close> loop visits.
\<close>

fun digit_value :: "char \<Rightarrow> nat option" where
  "digit_value c = findIndex (\<lambda>d. d = c) ''0123456789''"

fun decimal_value :: "nat \<Rightarrow> string \<Rightarrow> nat option" where
  "decimal_value acc [] = Some acc"
| "decimal_value acc (c # cs) =
     (case digit_value c of None \<Rightarrow> None | Some d \<Rightarrow> decimal_value (10 * acc + d) cs)"

definition array_index :: "string \<Rightarrow> nat option" where
  "array_index k =
     (if k = [] \<or> (hd k = CHR ''0'' \<and> tl k \<noteq> []) then None else decimal_value 0 k)"

function index_name :: "nat \<Rightarrow> string" where
  "index_name n =
     (if n < 10 then [''0123456789'' ! n]
      else index_name (n div 10) @ [''0123456789'' ! (n mod 10)])"
  by pat_completeness auto
termination
  by (relation "measure id") auto

fun get_prop :: "jsval \<Rightarrow> string \<Rightarrow> jsval" where
  "get_prop (JObj kvs) k = (case map_of kvs k of Some v \<Rightarrow> v | None \<Rightarrow> JUndefined)"
| "get_prop (JArr xs) k =
     (if k = ''length'' then JNum (Fin (real (length xs)))
      else
        (case array_index k of
           Some i \<Rightarrow> if i < length xs then xs ! i else JUndefined
         | None \<Rightarrow> JUndefined))"
| "get_prop v k = JUndefined"

fun own_keys :: "jsval \<Rightarrow> string list" where
  "own_keys (JObj kvs) = remdups (map fst kvs)"
| "own_keys (JArr xs) = map index_name [0..<length xs]"
| "own_keys v = []"

fun Number_isFinite :: "jsval \<Rightarrow> bool" where
  "Number_isFinite (JNum (Fin r)) = True"
| "Number_isFinite v = False"

text \<open>
  \<open>JSON.parse (JSON.stringify v)\<close> for a value that is not \<open>undefined\<close> at the top:
  numbers that are not finite become \<open>null\<close>, \<open>undefined\<close> becomes \<open>null\<close> inside an
  array and is dropped with its key inside an object.
\<close>

fun json_norm :: "jsval \<Rightarrow> jsval" where
  "json_norm (JNum (Fin r)) = JNum (Fin r)"
| "json_norm (JNum n) = JNull"
| "json_norm JUndefined = JNull"
| "json_norm (JArr xs) = JArr (map json_norm xs)"
| "json_norm (JObj kvs) =
     JObj (map (\<lambda>kv. (fst kv, json_norm (snd kv))) (filter (\<lambda>kv. snd kv \<noteq> JUndefined) kvs))"
| "json_norm v = v"

declare index_name.simps [simp del]

section \<open>StorageManager (second class of scripts/core/EventBus.js)\<close>

text \<open>
  \<open>localStorage\<close> holds texts. A text is either a string stored as it was (\<open>set\<close> writes
  a string value verbatim) or the serialisation of a value, which is represented by the
  value that \<open>JSON.parse\<close> reads back from it. What the browser does is a parameter of the
  model, the \<open>platform\<close>: whether a write is accepted, refused for lack of space, or
  fails otherwise; what \<open>JSON.parse\<close> makes of a string stored verbatim (\<open>None\<close> where it
  raises); and the number that a string, an array or an object converts to in a
  comparison. The time \<open>Date.now()\<close> is a parameter of each operation.
\<close>

datatype stored_text = Raw string | Json jsval

datatype write_outcome = Stored | QuotaExceededError | OtherError

record platform =
  setItem_outcome :: "(string \<times> stored_text) list \<Rightarrow> string \<Rightarrow> stored_text \<Rightarrow> write_outcome"
  JSON_parse_raw :: "string \<Rightarrow> jsval option"
  ToNumber_other :: "jsval \<Rightarrow> jsnum"

record storage_manager =
  isAvailable :: bool
  fallbackStorage :: "(string \<times> jsval) list"
  localStorage :: "(string \<times> stored_text) list"

text \<open>\<open>localStorage.setItem\<close>: the new content, or the exception.\<close>

definition setItem ::
  "platform \<Rightarrow> (string \<times> stored_text) list \<Rightarrow> string \<Rightarrow> stored_text
     \<Rightarrow> write_outcome + (string \<times> stored_text) list" where
  "setItem P ls key t =
     (case setItem_outcome P ls key t of
        Stored \<Rightarrow> Inr (AList.update key t ls)
      | failure \<Rightarrow> Inl failure)"

text \<open>The constructor: the probe write, and the probe key removed again.\<close>

definition checkAvailability :: "platform \<Rightarrow> (string \<times> stored_text) list \<Rightarrow> bool" where
  "checkAvailability P ls =
     (case setItem P ls ''__storage_test__'' (Raw ''test'') of
        Inr ls' \<Rightarrow> True
      | Inl failure \<Rightarrow> False)"

definition new_StorageManager :: "platform \<Rightarrow> (string \<times> stored_text) list \<Rightarrow> storage_manager" where
  "new_StorageManager P ls =
     \<lparr>isAvailable = checkAvailability P ls, fallbackStorage = [],
      localStorage =
        (if checkAvailability P ls then AList.delete ''__storage_test__'' ls else ls)\<rparr>"

text \<open>
  \<open>typeof value === 'string' ? value : JSON.stringify(value)\<close>, as the text that
  \<open>setItem\<close> stores; \<open>JSON.stringify(undefined)\<close> is \<open>undefined\<close>, stored as the string
  of that name. \<open>parse_stored\<close> is the \<open>JSON.parse\<close> of \<open>get\<close> with its fallback to the
  text itself.
\<close>

definition serialize :: "jsval \<Rightarrow> stored_text" where
  "serialize v =
     (case v of
        JStr s \<Rightarrow> Raw s
      | JUndefined \<Rightarrow> Raw ''undefined''
      | _ \<Rightarrow> Json (json_norm v))"

definition parse_stored :: "platform \<Rightarrow> stored_text \<Rightarrow> jsval" where
  "parse_stored P t =
     (case t of
        Json v \<Rightarrow> v
      | Raw s \<Rightarrow> (case JSON_parse_raw P s of Some v \<Rightarrow> v | None \<Rightarrow> JStr s))"

text \<open>\<open>get\<close>, \<open>remove\<close> and \<open>keys\<close>.\<close>

definition storage_get :: "platform \<Rightarrow> storage_manager \<Rightarrow> string \<Rightarrow> jsval \<Rightarrow> jsval" where
  "storage_get P sm key defaultValue =
     (if isAvailable sm then
        (case map_of (localStorage sm) key of
           None \<Rightarrow> defaultValue
         | Some t \<Rightarrow> parse_stored P t)
      else
        (case map_of (fallbackStorage sm) key of
           None \<Rightarrow> defaultValue
         | Some v \<Rightarrow> if v \<noteq> JUndefined then v else defaultValue))"

definition storage_remove :: "storage_manager \<Rightarrow> string \<Rightarrow> storage_manager" where
  "storage_remove sm key =
     (let sm1 = (if isAvailable sm then sm\<lparr>localStorage := AList.delete key (localStorage sm)\<rparr>
                 else sm)
      in sm1\<lparr>fallbackStorage := AList.delete key (fallbackStorage sm1)\<rparr>)"

definition storage_keys :: "storage_manager \<Rightarrow> string list" where
  "storage_keys sm =
     (if isAvailable sm then map fst (localStorage sm) else map fst (fallbackStorage sm))"

text \<open>
  \<open>data.timestamp && data.timestamp < limit\<close>, with the conversion to a number that
  \<open><\<close> applies to its left operand.
\<close>

fun jsnum_less :: "jsnum \<Rightarrow> real \<Rightarrow> bool" where
  "jsnum_less (Fin x) r = (x < r)"
| "jsnum_less NegInf r = True"
| "jsnum_less n r = False"

fun ToNumber :: "platform \<Rightarrow> jsval \<Rightarrow> jsnum" where
  "ToNumber P (JNum n) = n"
| "ToNumber P (JBool b) = Fin (if b then 1 else 0)"
| "ToNumber P JNull = Fin 0"
| "ToNumber P JUndefined = NaN"
| "ToNumber P v = ToNumber_other P v"

definition stale :: "platform \<Rightarrow> real \<Rightarrow> jsval \<Rightarrow> bool" where
  "stale P limit data =
     (truthy (get_prop data ''timestamp'') \<and>
      jsnum_less (ToNumber P (get_prop data ''timestamp'')) limit)"

text \<open>
  The \<open>forEach\<close> of \<open>handleQuotaExceeded\<close> over the keys taken at its start, with the
  manager and \<open>removedCount\<close> as they stand.
\<close>

fun quota_sweep ::
  "platform \<Rightarrow> real \<Rightarrow> string list \<Rightarrow> storage_manager \<times> nat \<Rightarrow> storage_manager \<times> nat" where
  "quota_sweep P thirtyDaysAgo [] acc = acc"
| "quota_sweep P thirtyDaysAgo (storageKey # keys) (sm, removedCount) =
     (let data = storage_get P sm storageKey JNull
      in if truthy data \<and> typeof_object data \<and> stale P thirtyDaysAgo data
         then quota_sweep P thirtyDaysAgo keys (storage_remove sm storageKey, Suc removedCount)
         else quota_sweep P thirtyDaysAgo keys (sm, removedCount))"

definition thirty_days :: real where
  "thirty_days = 30 * 24 * 60 * 60 * 1000"

text \<open>Every removal counted by the sweep took a key out of \<open>localStorage\<close>.\<close>

lemma quota_sweep_length:
  "isAvailable sm \<Longrightarrow>
   isAvailable (fst (quota_sweep P cutoff ks (sm, n))) \<and>
   length (localStorage (fst (quota_sweep P cutoff ks (sm, n)))) + snd (quota_sweep P cutoff ks (sm, n))
     \<le> length (localStorage sm) + n"
proof (induction ks arbitrary: sm n)
  case Nil
  then show ?case by simp
next
  case (Cons k ks)
  let ?data = "storage_get P sm k JNull"
  show ?case
  proof (cases "truthy ?data \<and> typeof_object ?data \<and> stale P cutoff ?data")
    case False
    then have "quota_sweep P cutoff (k # ks) (sm, n) = quota_sweep P cutoff ks (sm, n)"
      by (auto simp: Let_def)
    with Cons show ?thesis by simp
  next
    case True
    then have "map_of (localStorage sm) k \<noteq> None"
      using Cons.prems by (auto simp: storage_get_def split: option.splits)
    then obtain t where t: "(k, t) \<in> set (localStorage sm)"
      by (auto dest: map_of_SomeD)
    have less: "length (AList.delete k (localStorage sm)) < length (localStorage sm)"
      unfolding AList.delete_eq
      by (rule length_filter_less [OF t]) simp
    let ?sm1 = "storage_remove sm k"
    have av: "isAvailable ?sm1" and len1: "length (localStorage ?sm1) < length (localStorage sm)"
      using Cons.prems less by (simp_all add: storage_remove_def Let_def)
    from True have "quota_sweep P cutoff (k # ks) (sm, n) = quota_sweep P cutoff ks (?sm1, Suc n)"
      by (simp add: Let_def)
    with Cons.IH [OF av, of "Suc n"] len1 show ?thesis by simp
  qed
qed

text \<open>
  \<open>set\<close> and \<open>handleQuotaExceeded\<close> call each other. \<open>set\<close> returns the manager and its
  boolean; no exception leaves it: the one place that can raise, \<open>setItem\<close>, is inside
  its \<open>try\<close>. In \<open>handleQuotaExceeded\<close> the retry is a call of \<open>set\<close>, which returns
  and never raises, so the \<open>catch\<close> around the retry, which would write to the fallback
  map, is never entered. The recursion ends because a retry happens only after the sweep
  has removed a key.
\<close>

function (sequential) storage_set ::
    "platform \<Rightarrow> real \<Rightarrow> storage_manager \<Rightarrow> string \<Rightarrow> jsval \<Rightarrow> storage_manager \<times> bool"
  and handleQuotaExceeded ::
    "platform \<Rightarrow> real \<Rightarrow> storage_manager \<Rightarrow> string \<Rightarrow> jsval \<Rightarrow> storage_manager"
where
  "storage_set P now sm key val =
     (let serializedValue = serialize val
      in if isAvailable sm then
           (case setItem P (localStorage sm) key serializedValue of
              Inr ls \<Rightarrow> (sm\<lparr>localStorage := ls\<rparr>, True)
            | Inl QuotaExceededError \<Rightarrow> (handleQuotaExceeded P now sm key val, False)
            | Inl failure \<Rightarrow>
                (sm\<lparr>fallbackStorage := AList.update key val (fallbackStorage sm)\<rparr>, True))
         else (sm\<lparr>fallbackStorage := AList.update key val (fallbackStorage sm)\<rparr>, True))"
| "handleQuotaExceeded P now sm key val =
     (let keys = storage_keys sm;
          thirtyDaysAgo = now - thirty_days;
          swept = quota_sweep P thirtyDaysAgo keys (sm, 0)
      in if snd swept > 0 then fst (storage_set P now (fst swept) key val) else fst swept)"
  by pat_completeness auto
termination
proof (relation "measure (\<lambda>c. case c of
          Inl (P, now, sm, key, val) \<Rightarrow> (if isAvailable sm then 2 * length (localStorage sm) + 2 else 0)
        | Inr (P, now, sm, key, val) \<Rightarrow> (if isAvailable sm then 2 * length (localStorage sm) + 1 else 1))")
  show "wf (measure (\<lambda>c. case c of
          Inl (P, now, sm, key, val) \<Rightarrow> (if isAvailable sm then 2 * length (localStorage sm) + 2 else 0)
        | Inr (P, now, sm, key, val) \<Rightarrow> (if isAvailable sm then 2 * length (localStorage sm) + 1 else 1)))"
    by simp
next
  fix P now sm key val x2 x2a
  assume "isAvailable sm"
  then show "(Inr (P, now, sm, key, val), Inl (P, now, sm, key, val)) \<in> measure (\<lambda>c. case c of
          Inl (P, now, sm, key, val) \<Rightarrow> (if isAvailable sm then 2 * length (localStorage sm) + 2 else 0)
        | Inr (P, now, sm, key, val) \<Rightarrow> (if isAvailable sm then 2 * length (localStorage sm) + 1 else 1))"
    by simp
next
  fix P :: platform and now :: real and sm :: storage_manager and key :: string and val :: jsval
    and x xa xb
  assume x: "x = storage_keys sm" "xa = now - thirty_days" "xb = quota_sweep P xa x (sm, 0)"
    and pos: "0 < snd xb"
  show "(Inl (P, now, fst xb, key, val), Inr (P, now, sm, key, val)) \<in> measure (\<lambda>c. case c of
          Inl (P, now, sm, key, val) \<Rightarrow> (if isAvailable sm then 2 * length (localStorage sm) + 2 else 0)
        | Inr (P, now, sm, key, val) \<Rightarrow> (if isAvailable sm then 2 * length (localStorage sm) + 1 else 1))"
  proof (cases "isAvailable sm")
    case True
    from quota_sweep_length [OF True, of P xa x 0] pos x
    have "isAvailable (fst xb)" "length (localStorage (fst xb)) < length (localStorage sm)"
      by auto
    with True show ?thesis by simp
  next
    case False
    have "\<not> isAvailable (fst (quota_sweep P cutoff ks (s, n)))" if "\<not> isAvailable s" for cutoff ks s n
      using that
      by (induction ks arbitrary: s n) (auto simp: Let_def storage_remove_def)
    with False x show ?thesis by simp
  qed
qed


declare storage_set.simps [simp del] handleQuotaExceeded.simps [simp del]

section \<open>StateManager (scripts/core/StateManager.js)\<close>

text \<open>
  The events the store emits, and its state: \<open>state.images\<close> (an object from file name to
  record), \<open>state.theme\<close>, \<open>state.lastSaved\<close>, the storage manager it was given, and
  \<open>config.stateExpiryDays\<close>. A file name is an ordinary key.
\<close>

datatype state_event = StateSaved string jsval | ThemeUpdated string | StateReset

record state_manager =
  images :: "(string \<times> jsval) list"
  theme :: string
  lastSaved :: "real option"
  storage :: storage_manager
  stateExpiryDays :: real

text \<open>
  \<open>validateImageState\<close>: \<open>Array.isArray (v) && v.length === 2\<close> with two finite numbers,
  for \<open>position\<close> and for \<open>size\<close>, and both entries of \<open>size\<close> above 0.
\<close>

definition is_finite_pair :: "jsval \<Rightarrow> bool" where
  "is_finite_pair v =
     (case v of
        JArr [a, b] \<Rightarrow> Number_isFinite a \<and> Number_isFinite b
      | _ \<Rightarrow> False)"

fun positive :: "jsval \<Rightarrow> bool" where
  "positive (JNum (Fin r)) = (0 < r)"
| "positive v = False"

definition validateImageState :: "jsval \<Rightarrow> bool" where
  "validateImageState state =
     (if \<not> truthy state \<or> \<not> typeof_object state then False
      else
        let position = get_prop state ''position''; size = get_prop state ''size''
        in if \<not> is_finite_pair position then False
           else if \<not> is_finite_pair size then False
           else (case size of JArr [w, h] \<Rightarrow> positive w \<and> positive h | _ \<Rightarrow> False))"

text \<open>\<open>validateImageStates\<close> and its \<open>for ... in\<close> loop.\<close>

fun validate_loop :: "jsval \<Rightarrow> string list \<Rightarrow> (string \<times> jsval) list \<Rightarrow> (string \<times> jsval) list" where
  "validate_loop imageStates [] validated = validated"
| "validate_loop imageStates (filename # rest) validated =
     (let state = get_prop imageStates filename
      in validate_loop imageStates rest
           (if validateImageState state then AList.update filename state validated
            else validated))"

definition validateImageStates :: "jsval \<Rightarrow> (string \<times> jsval) list" where
  "validateImageStates imageStates =
     (if \<not> truthy imageStates \<or> \<not> typeof_object imageStates then []
      else validate_loop imageStates (own_keys imageStates) [])"

definition validateTheme :: "jsval \<Rightarrow> string" where
  "validateTheme t =
     (if t = JStr ''light'' then ''light'' else if t = JStr ''dark'' then ''dark''
      else ''light'')"



definition saveImageStates :: "platform \<Rightarrow> real \<Rightarrow> state_manager \<Rightarrow> state_manager" where
  "saveImageStates P now st =
     st\<lparr>lastSaved := Some now,
        storage := fst (storage_set P now (storage st) ''imageStates'' (JObj (images st)))\<rparr>"



definition setTheme ::
  "platform \<Rightarrow> real \<Rightarrow> state_manager \<Rightarrow> jsval \<Rightarrow> state_manager \<times> state_event list" where
  "setTheme P now st t =
     (let validatedTheme = validateTheme t
      in if validatedTheme \<noteq> theme st then
           (st\<lparr>theme := validatedTheme,
               storage := fst (storage_set P now (storage st) ''theme'' (JStr validatedTheme))\<rparr>,
            [ThemeUpdated validatedTheme])
         else (st, []))"

text \<open>
  \<open>cleanupOldStates\<close>: the \<open>for ... in\<close> loop over the keys of \<open>state.images\<close>, deleting
  as it goes, then one save if anything was deleted.
\<close>

fun cleanup_loop ::
  "platform \<Rightarrow> real \<Rightarrow> string list \<Rightarrow> (string \<times> jsval) list \<times> nat
     \<Rightarrow> (string \<times> jsval) list \<times> nat" where
  "cleanup_loop P expiryTime [] acc = acc"
| "cleanup_loop P expiryTime (filename # rest) (imgs, cleanedCount) =
     (let imageState = (case map_of imgs filename of Some v \<Rightarrow> v | None \<Rightarrow> JUndefined)
      in if stale P expiryTime imageState
         then cleanup_loop P expiryTime rest (AList.delete filename imgs, Suc cleanedCount)
         else cleanup_loop P expiryTime rest (imgs, cleanedCount))"

definition cleanupOldStates :: "platform \<Rightarrow> real \<Rightarrow> state_manager \<Rightarrow> state_manager" where
  "cleanupOldStates P now st =
     (let expiryTime = now - stateExpiryDays st * 24 * 60 * 60 * 1000;
          cleaned = cleanup_loop P expiryTime (map fst (images st)) (images st, 0);
          st1 = st\<lparr>images := fst cleaned\<rparr>
      in if snd cleaned > 0 then saveImageStates P now st1 else st1)"

text \<open>
  \<open>loadState\<close> and the constructor. Nothing in \<open>loadState\<close> raises in this model, so its
  \<open>catch\<close> is not entered. A simulated reload builds a new store over the same storage
  manager.
\<close>

definition loadState :: "platform \<Rightarrow> real \<Rightarrow> state_manager \<Rightarrow> state_manager" where
  "loadState P now st =
     (let imageStates = storage_get P (storage st) ''imageStates'' (JObj []);
          st1 = st\<lparr>images := validateImageStates imageStates\<rparr>;
          savedTheme = storage_get P (storage st) ''theme'' (JStr ''light'');
          st2 = st1\<lparr>theme := validateTheme savedTheme\<rparr>
      in cleanupOldStates P now st2)"

definition new_StateManager :: "platform \<Rightarrow> real \<Rightarrow> storage_manager \<Rightarrow> state_manager" where
  "new_StateManager P now sm =
     loadState P now
       \<lparr>images = [], theme = ''light'', lastSaved = None, storage = sm, stateExpiryDays = 30\<rparr>"



subsection \<open>The expiry sweep keeps what is not stale\<close>








subsection \<open>Two browsers for the examples\<close>

text \<open>
  One browser accepts every write; the other has room for the availability probe and
  nothing else. Both parse the three JSON literals and take every other verbatim string
  as plain text, which is right for the strings the examples store (\<open>test\<close>, \<open>dark\<close>).
  The timestamps of the examples are numbers, so the conversion of other values to
  numbers is not consulted.
\<close>

definition literal_parse :: "string \<Rightarrow> jsval option" where
  "literal_parse s =
     (if s = ''null'' then Some JNull
      else if s = ''true'' then Some (JBool True)
      else if s = ''false'' then Some (JBool False)
      else None)"

definition roomy_browser :: platform where
  "roomy_browser =
     \<lparr>setItem_outcome = (\<lambda>ls key t. Stored), JSON_parse_raw = literal_parse,
      ToNumber_other = (\<lambda>v. NaN)\<rparr>"

definition full_browser :: platform where
  "full_browser =
     \<lparr>setItem_outcome =
        (\<lambda>ls key t. if key = ''__storage_test__'' then Stored else QuotaExceededError),
      JSON_parse_raw = literal_parse, ToNumber_other = (\<lambda>v. NaN)\<rparr>"

definition placement :: "real \<Rightarrow> real \<Rightarrow> real \<Rightarrow> real \<Rightarrow> (string \<times> jsval) list" where
  "placement x y w h =
     [(''position'', JArr [JNum (Fin x), JNum (Fin y)]),
      (''size'', JArr [JNum (Fin w), JNum (Fin h)])]"


text \<open>The store on a first visit: nothing in storage.\<close>

definition first_visit :: state_manager where
  "first_visit = new_StateManager roomy_browser 1000 (new_StorageManager roomy_browser [])"

lemma first_visit_eval:
  "first_visit =
     \<lparr>images = [], theme = ''light'', lastSaved = None,
      storage = \<lparr>isAvailable = True, fallbackStorage = [], localStorage = []\<rparr>,
      stateExpiryDays = 30\<rparr>"
  by (simp add: first_visit_def new_StateManager_def loadState_def new_StorageManager_def
      checkAvailability_def setItem_def roomy_browser_def storage_get_def
      validateImageStates_def validateTheme_def cleanupOldStates_def Let_def)



subsection \<open>Theme\<close>

text \<open>
  Claim C9, as stated, fails for a store whose theme is already \<open>dark\<close> (here: loaded
  from storage): both calls are no-ops and nothing is emitted.
\<close>

definition dark_visit :: state_manager where
  "dark_visit =
     new_StateManager roomy_browser 1000
       (new_StorageManager roomy_browser [(''theme'', Raw ''dark'')])"

lemma dark_visit_eval:
  "dark_visit =
     \<lparr>images = [], theme = ''dark'', lastSaved = None,
      storage = \<lparr>isAvailable = True, fallbackStorage = [],
                  localStorage = [(''theme'', Raw ''dark'')]\<rparr>,
      stateExpiryDays = 30\<rparr>"
  by (simp add: dark_visit_def new_StateManager_def loadState_def new_StorageManager_def
      checkAvailability_def setItem_def roomy_browser_def storage_get_def parse_stored_def
      literal_parse_def validateImageStates_def validateTheme_def cleanupOldStates_def Let_def)

theorem setTheme_from_dark_counterexample:
  "theme dark_visit = ''dark'' \<and>
   setTheme roomy_browser 2000 dark_visit (JStr ''dark'') = (dark_visit, []) \<and>
   snd (setTheme roomy_browser 2000 dark_visit (JStr ''dark'')) @
     snd (setTheme roomy_browser 3000
            (fst (setTheme roomy_browser 2000 dark_visit (JStr ''dark''))) (JStr ''dark'')) = []"
  by (simp add: dark_visit_eval setTheme_def validateTheme_def Let_def)

text \<open>
  Claim C9, amended: \<open>setTheme\<close> normalises its argument (\<open>dark\<close> stays, anything else
  becomes \<open>light\<close>) and does nothing when the normalised value is the current theme;
  otherwise it stores the theme and emits \<open>theme:updated\<close> once. Two calls of
  \<open>setTheme('dark')\<close> in succession emit \<open>theme:updated\<close> exactly once when the starting
  theme is not \<open>dark\<close>, and not at all when it is; the second call changes nothing in
  either case.
\<close>

theorem setTheme_idempotent:
  "validateTheme t = (if t = JStr ''dark'' then ''dark'' else ''light'') \<and>
   setTheme P now st t =
     (if validateTheme t = theme st then (st, [])
      else (st\<lparr>theme := validateTheme t,
               storage := fst (storage_set P now (storage st) ''theme'' (JStr (validateTheme t)))\<rparr>,
            [ThemeUpdated (validateTheme t)])) \<and>
   snd (setTheme P now st (JStr ''dark'')) @
     snd (setTheme P now' (fst (setTheme P now st (JStr ''dark''))) (JStr ''dark'')) =
     (if theme st = ''dark'' then [] else [ThemeUpdated ''dark'']) \<and>
   fst (setTheme P now' (fst (setTheme P now st (JStr ''dark''))) (JStr ''dark'')) =
     fst (setTheme P now st (JStr ''dark''))"
  by (simp add: setTheme_def validateTheme_def Let_def)

theorem setTheme_idempotent_witness:
  "theme first_visit = ''light'' \<and>
   snd (setTheme roomy_browser 2000 first_visit (JStr ''dark'')) @
     snd (setTheme roomy_browser 3000
            (fst (setTheme roomy_browser 2000 first_visit (JStr ''dark''))) (JStr ''dark''))
     = [ThemeUpdated ''dark''] \<and>
   storage (fst (setTheme roomy_browser 2000 first_visit (JStr ''dark''))) =
     \<lparr>isAvailable = True, fallbackStorage = [], localStorage = [(''theme'', Raw ''dark'')]\<rparr> \<and>
   validateTheme (JNum (Fin 7)) = ''light''"
  using setTheme_idempotent [of "JStr ''dark''" roomy_browser 2000 first_visit 3000]
    setTheme_idempotent [of "JNum (Fin 7)" roomy_browser 2000 first_visit 3000]
  by (simp add: first_visit_eval storage_set.simps setItem_def roomy_browser_def serialize_def
      Let_def)


subsection \<open>A write that exceeds the quota\<close>

definition old_entry :: "string \<times> stored_text" where
  "old_entry = (''old'', Json (JObj [(''timestamp'', JNum (Fin 1))]))"

definition full_storage :: storage_manager where
  "full_storage = new_StorageManager full_browser [old_entry]"

lemma full_storage_eval:
  "full_storage = \<lparr>isAvailable = True, fallbackStorage = [], localStorage = [old_entry]\<rparr>"
  by (simp add: full_storage_def new_StorageManager_def checkAvailability_def setItem_def
      full_browser_def old_entry_def)

text \<open>
  Claim C7 on the path it describes. \<open>localStorage\<close> holds one entry stamped long ago and
  has no room for the layout. \<open>set\<close> meets the capacity error, the sweep removes the old
  entry, the write is retried once and fails again: the value is then in neither store
  (the fallback map is still empty) and \<open>set\<close> returns false. The claim says the value is
  put into the fallback map at this point.
\<close>

theorem quota_retry_never_falls_back:
  "storage_set full_browser 3000000000 full_storage ''imageStates''
       (JObj [(''a.png'', JObj (placement 10 10 50 50))])
     = (\<lparr>isAvailable = True, fallbackStorage = [], localStorage = []\<rparr>, False) \<and>
   storage_get full_browser \<lparr>isAvailable = True, fallbackStorage = [], localStorage = []\<rparr>
       ''imageStates'' JNull = JNull"
  by (simp add: full_storage_eval storage_set.simps handleQuotaExceeded.simps setItem_def
      full_browser_def old_entry_def storage_keys_def storage_get_def parse_stored_def
      stale_def thirty_days_def storage_remove_def serialize_def Let_def)


text \<open>
  In general: when the browser refuses every write of this text for lack of space, \<open>set\<close>
  returns false and neither store gains an entry.
\<close>

lemma storage_remove_subset:
  "isAvailable (storage_remove sm k) = isAvailable sm \<and>
   set (fallbackStorage (storage_remove sm k)) \<subseteq> set (fallbackStorage sm) \<and>
   set (localStorage (storage_remove sm k)) \<subseteq> set (localStorage sm)"
  by (auto simp: storage_remove_def Let_def AList.delete_eq)

lemma quota_sweep_subset:
  "isAvailable (fst (quota_sweep P cutoff ks (sm, n))) = isAvailable sm \<and>
   set (fallbackStorage (fst (quota_sweep P cutoff ks (sm, n)))) \<subseteq> set (fallbackStorage sm) \<and>
   set (localStorage (fst (quota_sweep P cutoff ks (sm, n)))) \<subseteq> set (localStorage sm)"
proof (induction ks arbitrary: sm n)
  case Nil
  then show ?case by simp
next
  case (Cons k ks)
  let ?data = "storage_get P sm k JNull"
  show ?case
  proof (cases "truthy ?data \<and> typeof_object ?data \<and> stale P cutoff ?data")
    case False
    then have "quota_sweep P cutoff (k # ks) (sm, n) = quota_sweep P cutoff ks (sm, n)"
      by (auto simp: Let_def)
    with Cons.IH [of sm n] show ?thesis by simp
  next
    case True
    then have "quota_sweep P cutoff (k # ks) (sm, n) =
        quota_sweep P cutoff ks (storage_remove sm k, Suc n)"
      by (simp add: Let_def)
    with Cons.IH [of "storage_remove sm k" "Suc n"] storage_remove_subset [of sm k]
    show ?thesis by auto
  qed
qed

lemma quota_never_falls_back:
  assumes "\<forall>ls. setItem_outcome P ls key (serialize val) = QuotaExceededError"
  shows "(isAvailable sm \<longrightarrow>
            snd (storage_set P now sm key val) = False \<and>
            set (fallbackStorage (fst (storage_set P now sm key val))) \<subseteq> set (fallbackStorage sm) \<and>
            set (localStorage (fst (storage_set P now sm key val))) \<subseteq> set (localStorage sm))"
    and "(isAvailable sm \<longrightarrow>
            set (fallbackStorage (handleQuotaExceeded P now sm key val)) \<subseteq> set (fallbackStorage sm) \<and>
            set (localStorage (handleQuotaExceeded P now sm key val)) \<subseteq> set (localStorage sm))"
  using assms
proof (induction P now sm key val and P now sm key val rule: storage_set_handleQuotaExceeded.induct)
  case (1 P now sm key val)
  show ?case
  proof
    assume av: "isAvailable sm"
    have q: "setItem P (localStorage sm) key (serialize val) = Inl QuotaExceededError"
      using "1.prems" by (simp add: setItem_def)
    have eq: "storage_set P now sm key val = (handleQuotaExceeded P now sm key val, False)"
      using av q by (simp add: storage_set.simps Let_def)
    from "1.IH" [OF refl av q refl "1.prems"] av
    show "snd (storage_set P now sm key val) = False \<and>
            set (fallbackStorage (fst (storage_set P now sm key val))) \<subseteq> set (fallbackStorage sm) \<and>
            set (localStorage (fst (storage_set P now sm key val))) \<subseteq> set (localStorage sm)"
      by (simp add: eq)
  qed
next
  case (2 P now sm key val)
  let ?swept = "quota_sweep P (now - thirty_days) (storage_keys sm) (sm, 0)"
  show ?case
  proof
    assume av: "isAvailable sm"
    note sw = quota_sweep_subset [of P "now - thirty_days" "storage_keys sm" sm 0]
    show "set (fallbackStorage (handleQuotaExceeded P now sm key val)) \<subseteq> set (fallbackStorage sm) \<and>
            set (localStorage (handleQuotaExceeded P now sm key val)) \<subseteq> set (localStorage sm)"
    proof (cases "snd ?swept > 0")
      case False
      then have "handleQuotaExceeded P now sm key val = fst ?swept"
        by (simp add: handleQuotaExceeded.simps Let_def)
      with sw show ?thesis by simp
    next
      case True
      then have eq: "handleQuotaExceeded P now sm key val =
          fst (storage_set P now (fst ?swept) key val)"
        by (simp add: handleQuotaExceeded.simps Let_def)
      from "2.IH" [OF refl refl refl True "2.prems"] sw av
      have "set (fallbackStorage (fst (storage_set P now (fst ?swept) key val)))
              \<subseteq> set (fallbackStorage (fst ?swept)) \<and>
            set (localStorage (fst (storage_set P now (fst ?swept) key val)))
              \<subseteq> set (localStorage (fst ?swept))"
        by simp
      with sw show ?thesis unfolding eq by blast
    qed
  qed
qed

subsection \<open>Saving a record and loading it again\<close>




lemma map_of_filter_keeps:
  "map_of kvs f = Some v \<Longrightarrow> Q v \<Longrightarrow> map_of (filter (\<lambda>kv. Q (snd kv)) kvs) f = Some v"
  by (induction kvs) (auto split: if_splits)

lemma map_of_map_values:
  "map_of (map (\<lambda>kv. (fst kv, g (snd kv))) kvs) f = map_option g (map_of kvs f)"
  by (induction kvs) auto

lemma get_prop_json_norm:
  assumes "map_of kvs f = Some v" "v \<noteq> JUndefined"
  shows "get_prop (json_norm (JObj kvs)) f = json_norm v"
proof -
  have "map_of (filter (\<lambda>kv. snd kv \<noteq> JUndefined) kvs) f = Some v"
    using map_of_filter_keeps [OF assms(1), of "\<lambda>v. v \<noteq> JUndefined"] assms(2) by simp
  then show ?thesis by (simp add: map_of_map_values)
qed










end
